theory Spec2Isabelle
  imports Main "HOL-Library.AList" "HOL-Library.Sublist"
begin

section \<open>Python values, dictionaries and exceptions\<close>

text \<open>
  The runner handles values typed \<open>Any\<close>: header values, parameter values, cells of a
  result frame. They are modelled by one datatype. A dictionary with string keys is an
  association list in insertion order; \<open>d[k] = v\<close> is \<open>AList.update k v d\<close> (an existing
  key keeps its place, a new key goes last, as in Python), \<open>d.get(k)\<close> is \<open>dict_get\<close>.
  A string is a list of characters, each a code point below 256.
\<close>

datatype pyval =
    PNone
  | PBool bool
  | PInt int
  | PStr string
  | PList "pyval list"
  | PDict "(string \<times> pyval) list"

type_synonym pydict = "(string \<times> pyval) list"

text \<open>
  Exceptions are values. \<open>RuntimeError\<close> and \<open>ConnectionError\<close> carry their message,
  \<open>KeyError\<close> the missing key. \<open>External\<close> stands for whatever a collaborator
  (the driver, the delegate, the flight client) raises.
\<close>

datatype error =
    RuntimeError string
  | ConnectionError string
  | ValueError
  | KeyError string
  | TypeError
  | AttributeError
  | IndexError
  | External string

definition dict_get :: "pydict \<Rightarrow> string \<Rightarrow> pyval" where
  "dict_get d k = (case map_of d k of None \<Rightarrow> PNone | Some v \<Rightarrow> v)"

definition dict_getitem :: "pydict \<Rightarrow> string \<Rightarrow> error + pyval" where
  "dict_getitem d k = (case map_of d k of None \<Rightarrow> Inl (KeyError k) | Some v \<Rightarrow> Inr v)"

fun truthy :: "pyval \<Rightarrow> bool" where
  "truthy PNone = False"
| "truthy (PBool b) = b"
| "truthy (PInt i) = (i \<noteq> 0)"
| "truthy (PStr s) = (s \<noteq> [])"
| "truthy (PList xs) = (xs \<noteq> [])"
| "truthy (PDict d) = (d \<noteq> [])"

subsection \<open>\<open>str.split\<close>, tuple unpacking, \<open>str.endswith\<close>, \<open>int\<close>\<close>

text \<open>\<open>s.split(c)\<close> for a one-character separator: every occurrence separates.\<close>

fun split_on :: "char \<Rightarrow> string \<Rightarrow> string list" where
  "split_on c [] = [[]]"
| "split_on c (x # xs) =
     (if x = c then [] # split_on c xs
      else (case split_on c xs of [] \<Rightarrow> [[x]] | p # ps \<Rightarrow> (x # p) # ps))"

text \<open>\<open>s.split(c, 1)\<close>: at most one split, at the first occurrence.\<close>

definition split_once :: "char \<Rightarrow> string \<Rightarrow> string list" where
  "split_once c s =
     (if c \<in> set s then [takeWhile (\<lambda>x. x \<noteq> c) s, tl (dropWhile (\<lambda>x. x \<noteq> c) s)] else [s])"

text \<open>\<open>a, b = xs\<close> raises \<open>ValueError\<close> unless \<open>xs\<close> has exactly two elements.\<close>

fun unpack2 :: "'a list \<Rightarrow> error + ('a \<times> 'a)" where
  "unpack2 [a, b] = Inr (a, b)"
| "unpack2 _ = Inl ValueError"

definition endswith :: "string \<Rightarrow> string \<Rightarrow> bool" where
  "endswith s suf = (length suf \<le> length s \<and> drop (length s - length suf) s = suf)"

text \<open>
  \<open>int(s)\<close> in base 10: surrounding whitespace is dropped, one sign is allowed, then
  decimal digits, single underscores allowed between two digits. Anything else raises
  \<open>ValueError\<close>. The whitespace \<open>int\<close> drops is tab, line feed, vertical tab, form
  feed, carriage return and space, and of the code points from 127 on the two that are
  spaces (133 and 160); the separators 28 to 31 are not dropped, so a text holding one
  is rejected. (The interpreter's configurable limit on the number of digits is not
  modelled; it only turns very long digit strings into \<open>ValueError\<close> as well.)
\<close>

definition is_space :: "char \<Rightarrow> bool" where
  "is_space c = (of_char c \<in> {9, 10, 11, 12, 13, 32, 133, 160 :: nat})"

definition is_digit :: "char \<Rightarrow> bool" where
  "is_digit c = (48 \<le> (of_char c :: nat) \<and> (of_char c :: nat) \<le> 57)"

definition digit_val :: "char \<Rightarrow> int" where
  "digit_val c = int (of_char c) - 48"

definition strip :: "string \<Rightarrow> string" where
  "strip s = rev (dropWhile is_space (rev (dropWhile is_space s)))"

fun parse_digits :: "int \<Rightarrow> bool \<Rightarrow> string \<Rightarrow> int option" where
  "parse_digits acc prev [] = (if prev then Some acc else None)"
| "parse_digits acc prev (c # cs) =
     (if is_digit c then parse_digits (10 * acc + digit_val c) True cs
      else if c = CHR ''_'' \<and> prev then parse_digits acc False cs
      else None)"

definition py_int :: "string \<Rightarrow> error + int" where
  "py_int s =
     (case strip s of
        [] \<Rightarrow> Inl ValueError
      | c # cs \<Rightarrow>
          (if c = CHR ''+'' then
             (case parse_digits 0 False cs of None \<Rightarrow> Inl ValueError | Some n \<Rightarrow> Inr n)
           else if c = CHR ''-'' then
             (case parse_digits 0 False cs of None \<Rightarrow> Inl ValueError | Some n \<Rightarrow> Inr (- n))
           else
             (case parse_digits 0 False (c # cs) of None \<Rightarrow> Inl ValueError | Some n \<Rightarrow> Inr n)))"

section \<open>The collaborators: delegate and flight client\<close>

text \<open>
  The runner talks to a delegate (\<open>_fallback_query_runner\<close>) and to a flight client
  (\<open>_client\<close>). Neither is code of the runner, so both are parameters. Every call the
  runner makes on them is appended to a trace, and what a collaborator answers is a
  function of the trace before the call and of the call's arguments: any deterministic,
  stateful collaborator is covered. \<open>'k\<close> is the \<open>EndpointType\<close> the runner passes
  through untouched. A result frame is a list of rows of cells.
\<close>

type_synonym frame = "pyval list list"

datatype 'k event =
    ClientAuthenticate string string
  | ClientClose
  | DelegateCallEndpoint 'k string "string list option" "string option" pydict "string option" bool
  | DelegateCallProcedure string "string list option" "string option" pydict
  | DelegateClose

text \<open>
  The flight client answers \<open>authenticate_basic_token\<close> either by raising (\<open>Rejected\<close>) or by
  handing the response headers to the installed middleware (\<open>Responded\<close>).
\<close>

datatype handshake = Rejected error | Responded pydict

text \<open>
  \<open>middleware_failure\<close> is what \<open>authenticate_basic_token\<close> raises when the middleware's
  \<open>received_headers\<close> raised (\<open>None\<close>: the client swallows it). \<open>builtin_str\<close> is
  Python's \<open>str\<close> on values that are not strings.
\<close>

record 'k env =
  delegate_call_endpoint ::
    "'k event list \<Rightarrow> 'k \<Rightarrow> string \<Rightarrow> string list option \<Rightarrow> string option \<Rightarrow> pydict \<Rightarrow>
     string option \<Rightarrow> bool \<Rightarrow> error + frame"
  delegate_call_procedure ::
    "'k event list \<Rightarrow> string \<Rightarrow> string list option \<Rightarrow> string option \<Rightarrow> pydict \<Rightarrow> error + frame"
  delegate_close :: "'k event list \<Rightarrow> error option"
  client_authenticate_basic_token :: "'k event list \<Rightarrow> string \<Rightarrow> string \<Rightarrow> handshake"
  client_close :: "'k event list \<Rightarrow> error option"
  middleware_failure :: "error \<Rightarrow> error option"
  builtin_str :: "pyval \<Rightarrow> string"

section \<open>\<open>AuthPairInterceptingMiddleware\<close>\<close>

text \<open>An attribute that was never assigned is \<open>None\<close>; reading it raises \<open>AttributeError\<close>.\<close>

record middleware =
  attr_token :: "string option"
  attr_arrow_address :: "string option"

definition read_auth_header :: "pyval \<Rightarrow> error + (string \<times> string)" where
  "read_auth_header auth_header =
     (case (case auth_header of
              PList [] \<Rightarrow> Inl IndexError
            | PList (x # _) \<Rightarrow> Inr x
            | PStr s \<Rightarrow> Inr (PStr s)
            | _ \<Rightarrow> Inl ValueError) of
        Inl e \<Rightarrow> Inl e
      | Inr (PStr s) \<Rightarrow> unpack2 (split_once CHR '' '' s)
      | Inr _ \<Rightarrow> Inl AttributeError)"

definition py_str :: "'k env \<Rightarrow> pyval \<Rightarrow> string" where
  "py_str env v = (case v of PStr s \<Rightarrow> s | _ \<Rightarrow> builtin_str env v)"

definition read_address_header :: "'k env \<Rightarrow> pyval \<Rightarrow> error + string" where
  "read_address_header env address_header =
     (case address_header of
        PList [] \<Rightarrow> Inl IndexError
      | PList (x # _) \<Rightarrow> Inr (py_str env x)
      | PStr s \<Rightarrow> Inr s
      | _ \<Rightarrow> Inl ValueError)"

text \<open>
  \<open>received_headers\<close> returns the exception it raised, if any, and the middleware as it
  is left: an assignment made before a later statement raises stays made.
\<close>

definition received_headers :: "'k env \<Rightarrow> middleware \<Rightarrow> pydict \<Rightarrow> error option \<times> middleware" where
  "received_headers env m headers =
     (case read_auth_header (dict_get headers ''authorization'') of
        Inl e \<Rightarrow> (Some e, m)
      | Inr (auth_type, token) \<Rightarrow>
          (let m1 = (if auth_type = ''Bearer'' then m\<lparr>attr_token := Some token\<rparr> else m) in
           case read_address_header env (dict_get headers ''arrowpluginaddress'') of
             Inl e \<Rightarrow> (Some e, m1)
           | Inr a \<Rightarrow> (None, m1\<lparr>attr_arrow_address := Some a\<rparr>)))"

definition sending_headers :: "middleware \<Rightarrow> (string \<times> string) list" where
  "sending_headers m = []"

definition middleware_token :: "middleware \<Rightarrow> error + string" where
  "middleware_token m = (case attr_token m of None \<Rightarrow> Inl AttributeError | Some t \<Rightarrow> Inr t)"

definition middleware_endpoint :: "middleware \<Rightarrow> error + string" where
  "middleware_endpoint m = (case attr_arrow_address m of None \<Rightarrow> Inl AttributeError | Some a \<Rightarrow> Inr a)"

section \<open>\<open>AuraDbArrowQueryRunner\<close>\<close>

record location =
  loc_tls :: bool
  loc_host :: string
  loc_port :: int

record runner =
  auth :: "string \<times> string"
  encrypted :: bool
  client_location :: location
  auth_pair_middleware :: middleware

text \<open>The state of a run: the runner object and the trace of calls made on the collaborators.\<close>

record 'k world =
  self :: runner
  trace :: "'k event list"

definition GDS_REMOTE_PROJECTION_PROC_NAME :: string where
  "GDS_REMOTE_PROJECTION_PROC_NAME = ''gds.graph.project.remoteDb''"

subsection \<open>Construction\<close>

text \<open>
  The constructor talks to the driver and to the flight library, both parameters.
  \<open>driver_open\<close> is what \<open>GraphDatabase.driver\<close> raises, if anything; \<open>arrow_status\<close> is
  the frame \<open>call_procedure\<close> returns for \<open>internal.arrow.status\<close>, or what it raises;
  \<open>driver_encrypted\<close> is \<open>driver.encrypted\<close>; \<open>driver_close\<close> is what closing the driver
  raises, if anything, when the \<open>with\<close> block is left.
\<close>

record status_frame =
  frame_columns :: "string list"
  frame_rows :: "pyval list list"

record driver =
  driver_open :: "error option"
  arrow_status :: "error + status_frame"
  driver_encrypted :: bool
  driver_close :: "error option"

text \<open>
  \<open>for_grpc_tls\<close> and \<open>for_grpc_tcp\<close> are what \<open>flight.Location.for_grpc_tls\<close> and
  \<open>for_grpc_tcp\<close> raise for a host and a port, if anything (the location they build is
  determined by its scheme, host and port); \<open>flight_client\<close> is what constructing the
  \<open>FlightClient\<close> for a location raises, if anything.
\<close>

record flight_library =
  for_grpc_tls :: "string \<Rightarrow> int \<Rightarrow> error option"
  for_grpc_tcp :: "string \<Rightarrow> int \<Rightarrow> error option"
  flight_client :: "location \<Rightarrow> error option"

text \<open>
  \<open>DataFrame.squeeze()\<close> on the status frame drops every axis of length one. One row and
  one column leave the cell itself. One row otherwise leaves a Series indexed by column
  name. One column otherwise leaves a Series indexed by row number. Anything else stays a
  frame.
\<close>

datatype squeezed_status =
    Cell pyval
  | ColumnSeries "(string \<times> pyval) list"
  | RowSeries "pyval list list"
  | WholeFrame status_frame

definition squeeze_status :: "status_frame \<Rightarrow> squeezed_status" where
  "squeeze_status f =
     (case frame_rows f of
        [r] \<Rightarrow>
          (case (frame_columns f, r) of
             ([c], [v]) \<Rightarrow> Cell v
           | _ \<Rightarrow> ColumnSeries (zip (frame_columns f) r))
      | rs \<Rightarrow>
          (case frame_columns f of
             [c] \<Rightarrow> RowSeries rs
           | _ \<Rightarrow> WholeFrame f))"

text \<open>
  \<open>.get(key)\<close> with a string key. A Series indexed by name gives the value at the label,
  \<open>None\<close> when the label is missing, and a Series again when the label occurs more than
  once. A Series indexed by row number has no string label: \<open>None\<close>. A frame gives the
  column, itself a Series or a frame, or \<open>None\<close> when there is no such column. A cell that
  is a dictionary answers as a dictionary; any other cell has no \<open>get\<close>:
  \<open>AttributeError\<close>. The truth value of a Series or a frame is ambiguous: testing it
  raises \<open>ValueError\<close>.
\<close>

datatype gotten = Val pyval | NonScalarVal

definition series_get :: "(string \<times> pyval) list \<Rightarrow> string \<Rightarrow> gotten" where
  "series_get s key =
     (case filter (\<lambda>kv. fst kv = key) s of
        [] \<Rightarrow> Val PNone
      | [kv] \<Rightarrow> Val (snd kv)
      | _ \<Rightarrow> NonScalarVal)"

definition status_get :: "squeezed_status \<Rightarrow> string \<Rightarrow> error + gotten" where
  "status_get arrow_info key =
     (case arrow_info of
        Cell v \<Rightarrow> (case v of PDict d \<Rightarrow> Inr (Val (dict_get d key)) | _ \<Rightarrow> Inl AttributeError)
      | ColumnSeries s \<Rightarrow> Inr (series_get s key)
      | RowSeries rs \<Rightarrow> Inr (Val PNone)
      | WholeFrame f \<Rightarrow> Inr (if key \<in> set (frame_columns f) then NonScalarVal else Val PNone))"

definition truth_of :: "gotten \<Rightarrow> error + bool" where
  "truth_of g = (case g of Val v \<Rightarrow> Inr (truthy v) | NonScalarVal \<Rightarrow> Inl ValueError)"

definition not_running_message :: "string \<Rightarrow> string" where
  "not_running_message aura_db_endpoint =
     ''The Arrow Server is not running at `'' @ aura_db_endpoint @ ''`''"

text \<open>
  \<open>with_block\<close> is the body of the constructor's \<open>with\<close> statement, \<open>init\<close> is
  \<open>__init__\<close>: \<open>Inl\<close> is the exception that leaves the constructor, so no runner exists;
  \<open>Inr\<close> is the constructed runner. Leaving the \<open>with\<close> block closes the driver, on
  every path; an exception raised by that close is the one the caller sees.
\<close>

definition with_block ::
  "driver \<Rightarrow> flight_library \<Rightarrow> string \<Rightarrow> string \<times> string \<Rightarrow> error + runner" where
  "with_block drv fl aura_db_endpoint a =
     (case arrow_status drv of
        Inl e \<Rightarrow> Inl e
      | Inr f \<Rightarrow>
          (let arrow_info = squeeze_status f in
           case status_get arrow_info ''running'' of
             Inl e \<Rightarrow> Inl e
           | Inr running \<Rightarrow>
               (case truth_of running of
                  Inl e \<Rightarrow> Inl e
                | Inr is_running \<Rightarrow>
                    if \<not> is_running then
                      Inl (RuntimeError (not_running_message aura_db_endpoint))
                    else
                      (case status_get arrow_info ''advertisedListenAddress'' of
                         Inl e \<Rightarrow> Inl e
                       | Inr listen_address \<Rightarrow>
                           (case truth_of listen_address of
                              Inl e \<Rightarrow> Inl e
                            | Inr has_address \<Rightarrow>
                                if \<not> has_address then
                                  Inl (ConnectionError ''Did not retrieve connection info from database'')
                                else
                                  (case listen_address of
                                     Val (PStr s) \<Rightarrow>
                                       (case unpack2 (split_on CHR '':'' s) of
                                          Inl e \<Rightarrow> Inl e
                                        | Inr (host, port_string) \<Rightarrow>
                                            (case py_int port_string of
                                               Inl e \<Rightarrow> Inl e
                                             | Inr port \<Rightarrow>
                                                 (case (if driver_encrypted drv
                                                        then for_grpc_tls fl host port
                                                        else for_grpc_tcp fl host port) of
                                                    Some e \<Rightarrow> Inl e
                                                  | None \<Rightarrow>
                                                      (case flight_client fl
                                                              \<lparr>loc_tls = driver_encrypted drv,
                                                               loc_host = host, loc_port = port\<rparr> of
                                                         Some e \<Rightarrow> Inl e
                                                       | None \<Rightarrow>
                                                           Inr \<lparr>auth = a,
                                                                encrypted = driver_encrypted drv,
                                                                client_location =
                                                                  \<lparr>loc_tls = driver_encrypted drv,
                                                                   loc_host = host, loc_port = port\<rparr>,
                                                                auth_pair_middleware =
                                                                  \<lparr>attr_token = None,
                                                                   attr_arrow_address = None\<rparr>\<rparr>))))
                                   | _ \<Rightarrow> Inl AttributeError))))))"

definition init :: "driver \<Rightarrow> flight_library \<Rightarrow> string \<times> (string \<times> string) \<Rightarrow> error + runner" where
  "init drv fl aura_db_connection_info =
     (case aura_db_connection_info of (aura_db_endpoint, a) \<Rightarrow>
      (case driver_open drv of
         Some e \<Rightarrow> Inl e
       | None \<Rightarrow>
           (case driver_close drv of
              Some e \<Rightarrow> Inl e
            | None \<Rightarrow> with_block drv fl aura_db_endpoint a)))"

subsection \<open>The handshake\<close>

definition log_event :: "'k event \<Rightarrow> 'k world \<Rightarrow> 'k world" where
  "log_event ev w = w\<lparr>trace := trace w @ [ev]\<rparr>"

definition authenticate_basic_token ::
  "'k env \<Rightarrow> 'k world \<Rightarrow> string \<Rightarrow> string \<Rightarrow> error option \<times> 'k world" where
  "authenticate_basic_token env w user password =
     (let w1 = log_event (ClientAuthenticate user password) w in
      case client_authenticate_basic_token env (trace w) user password of
        Rejected e \<Rightarrow> (Some e, w1)
      | Responded headers \<Rightarrow>
          (case received_headers env (auth_pair_middleware (self w1)) headers of
             (r, m) \<Rightarrow>
               ((case r of None \<Rightarrow> None | Some e \<Rightarrow> middleware_failure env e),
                w1\<lparr>self := (self w1)\<lparr>auth_pair_middleware := m\<rparr>\<rparr>)))"

definition get_or_request_auth_pair ::
  "'k env \<Rightarrow> 'k world \<Rightarrow> (error + (string \<times> string)) \<times> 'k world" where
  "get_or_request_auth_pair env w =
     (case authenticate_basic_token env w (fst (auth (self w))) (snd (auth (self w))) of
        (Some e, w1) \<Rightarrow> (Inl e, w1)
      | (None, w1) \<Rightarrow>
          (case middleware_token (auth_pair_middleware (self w1)) of
             Inl e \<Rightarrow> (Inl e, w1)
           | Inr t \<Rightarrow>
               (case middleware_endpoint (auth_pair_middleware (self w1)) of
                  Inl e \<Rightarrow> (Inl e, w1)
                | Inr a \<Rightarrow> (Inr (t, a), w1))))"

subsection \<open>The lookup of a graph's location\<close>

text \<open>
  \<open>DataFrame.squeeze()\<close> turns a frame of one row and one column into its cell and leaves
  every other shape a Series or frame. Comparing such a non-scalar with \<open>"remote"\<close> gives
  an element-wise result whose truth value is ambiguous: testing it raises \<open>ValueError\<close>.
\<close>

datatype squeezed = Scalar pyval | NonScalar frame

fun squeeze :: "frame \<Rightarrow> squeezed" where
  "squeeze [[v]] = Scalar v"
| "squeeze f = NonScalar f"

datatype truth = Truth bool | Ambiguous

definition graph_list_call :: "pyval \<Rightarrow> 'k event" where
  "graph_list_call graph_name =
     DelegateCallProcedure ''gds.graph.list'' (Some [''databaseLocation'']) (Some ''$graph_name'')
       [(''graph_name'', graph_name)]"

definition is_remote_projected_graph ::
  "'k env \<Rightarrow> 'k world \<Rightarrow> pyval \<Rightarrow> (error + truth) \<times> 'k world" where
  "is_remote_projected_graph env w graph_name =
     (let w1 = log_event (graph_list_call graph_name) w in
      case delegate_call_procedure env (trace w) ''gds.graph.list'' (Some [''databaseLocation''])
             (Some ''$graph_name'') [(''graph_name'', graph_name)] of
        Inl e \<Rightarrow> (Inl e, w1)
      | Inr f \<Rightarrow>
          (case squeeze f of
             Scalar database_location \<Rightarrow> (Inr (Truth (database_location = PStr ''remote'')), w1)
           | NonScalar _ \<Rightarrow> (Inr Ambiguous, w1)))"

subsection \<open>\<open>call_endpoint\<close> and \<open>close\<close>\<close>

text \<open>
  \<open>call_endpoint\<close> returns three things: the result or the exception raised; the caller's
  own dictionary as the call leaves it (\<open>None\<close> when the caller passed \<open>None\<close>: the
  dictionary created in its place is local to the call); and the new state. The
  dictionary handed to the delegate is that same object, so a change made before
  forwarding shows in both.
\<close>

definition forward ::
  "'k env \<Rightarrow> 'k world \<Rightarrow> 'k \<Rightarrow> string \<Rightarrow> string list option \<Rightarrow> string option \<Rightarrow> pydict \<Rightarrow>
   string option \<Rightarrow> bool \<Rightarrow> (error + frame) \<times> 'k world" where
  "forward env w type endpoint yields body params database custom_error =
     (delegate_call_endpoint env (trace w) type endpoint yields body params database custom_error,
      log_event (DelegateCallEndpoint type endpoint yields body params database custom_error) w)"

definition callers_view :: "pydict option \<Rightarrow> pydict \<Rightarrow> pydict option" where
  "callers_view given params = (case given of None \<Rightarrow> None | Some _ \<Rightarrow> Some params)"

definition arrow_connection_info :: "string \<Rightarrow> int \<Rightarrow> string \<Rightarrow> bool \<Rightarrow> pyval" where
  "arrow_connection_info host port token enc =
     PDict [(''hostname'', PStr host), (''port'', PInt port), (''bearerToken'', PStr token),
            (''useEncryption'', PBool enc)]"

definition call_endpoint ::
  "'k env \<Rightarrow> 'k world \<Rightarrow> 'k \<Rightarrow> string \<Rightarrow> string list option \<Rightarrow> string option \<Rightarrow> pydict option \<Rightarrow>
   string option \<Rightarrow> bool \<Rightarrow> (error + frame) \<times> pydict option \<times> 'k world" where
  "call_endpoint env w type endpoint yields body given database custom_error =
     (let params = (case given of None \<Rightarrow> [] | Some p \<Rightarrow> p) in
      if GDS_REMOTE_PROJECTION_PROC_NAME = endpoint then
        (case get_or_request_auth_pair env w of
           (Inl e, w1) \<Rightarrow> (Inl e, callers_view given params, w1)
         | (Inr (token, aura_db_arrow_endpoint), w1) \<Rightarrow>
             (let params1 =
                    AList.update ''config'' (PDict [(''useEncryption'', PBool (encrypted (self w1)))])
                      (AList.update ''host'' (PStr aura_db_arrow_endpoint)
                        (AList.update ''token'' (PStr token) params)) in
              case forward env w1 type endpoint yields body params1 database custom_error of
                (res, w2) \<Rightarrow> (res, callers_view given params1, w2)))
      else if endswith endpoint ''.write'' then
        (case dict_getitem params ''graph_name'' of
           Inl e \<Rightarrow> (Inl e, callers_view given params, w)
         | Inr graph_name \<Rightarrow>
             (case is_remote_projected_graph env w graph_name of
                (Inl e, w1) \<Rightarrow> (Inl e, callers_view given params, w1)
              | (Inr Ambiguous, w1) \<Rightarrow> (Inl ValueError, callers_view given params, w1)
              | (Inr (Truth False), w1) \<Rightarrow>
                  (case forward env w1 type endpoint yields body params database custom_error of
                     (res, w2) \<Rightarrow> (res, callers_view given params, w2))
              | (Inr (Truth True), w1) \<Rightarrow>
                  (case get_or_request_auth_pair env w1 of
                     (Inl e, w2) \<Rightarrow> (Inl e, callers_view given params, w2)
                   | (Inr (token, aura_db_arrow_endpoint), w2) \<Rightarrow>
                       (case unpack2 (split_on CHR '':'' aura_db_arrow_endpoint) of
                          Inl e \<Rightarrow> (Inl e, callers_view given params, w2)
                        | Inr (host, port_string) \<Rightarrow>
                            (case py_int port_string of
                               Inl e \<Rightarrow> (Inl e, callers_view given params, w2)
                             | Inr port \<Rightarrow>
                                 (case dict_getitem params ''config'' of
                                    Inl e \<Rightarrow> (Inl e, callers_view given params, w2)
                                  | Inr (PDict config) \<Rightarrow>
                                      (let params1 =
                                             AList.update ''config''
                                               (PDict (AList.update ''arrowConnectionInfo''
                                                  (arrow_connection_info host port token (encrypted (self w2)))
                                                  config))
                                               params in
                                       case forward env w2 type endpoint yields body params1 database
                                              custom_error of
                                         (res, w3) \<Rightarrow> (res, callers_view given params1, w3))
                                  | Inr _ \<Rightarrow> (Inl TypeError, callers_view given params, w2)))))))
      else
        (case forward env w type endpoint yields body params database custom_error of
           (res, w1) \<Rightarrow> (res, callers_view given params, w1)))"

definition close :: "'k env \<Rightarrow> 'k world \<Rightarrow> error option \<times> 'k world" where
  "close env w =
     (let w1 = log_event ClientClose w in
      case client_close env (trace w) of
        Some e \<Rightarrow> (Some e, w1)
      | None \<Rightarrow> (delegate_close env (trace w1), log_event DelegateClose w1))"

section \<open>Sequences of calls and what a trace shows\<close>

text \<open>
  A caller issues requests one after another on the same runner, and goes on after a
  request that raised. \<open>privileged\<close> is the classification \<open>call_endpoint\<close> makes for a
  request in a given state: the remote projection procedure, or a \<open>.write\<close> endpoint on a
  graph whose lookup answers \<open>remote\<close>.
\<close>

record 'k request =
  rq_type :: 'k
  rq_endpoint :: string
  rq_yields :: "string list option"
  rq_body :: "string option"
  rq_params :: "pydict option"
  rq_database :: "string option"
  rq_custom_error :: bool

definition dispatch :: "'k env \<Rightarrow> 'k world \<Rightarrow> 'k request \<Rightarrow> (error + frame) \<times> pydict option \<times> 'k world" where
  "dispatch env w q =
     call_endpoint env w (rq_type q) (rq_endpoint q) (rq_yields q) (rq_body q) (rq_params q)
       (rq_database q) (rq_custom_error q)"

fun run_calls :: "'k env \<Rightarrow> 'k world \<Rightarrow> 'k request list \<Rightarrow> 'k world" where
  "run_calls env w [] = w"
| "run_calls env w (q # qs) = run_calls env (snd (snd (dispatch env w q))) qs"

definition privileged :: "'k env \<Rightarrow> 'k world \<Rightarrow> 'k request \<Rightarrow> bool" where
  "privileged env w q =
     (rq_endpoint q = GDS_REMOTE_PROJECTION_PROC_NAME
      \<or> (endswith (rq_endpoint q) ''.write''
          \<and> (case dict_getitem (case rq_params q of None \<Rightarrow> [] | Some p \<Rightarrow> p) ''graph_name'' of
                Inl e \<Rightarrow> False
              | Inr g \<Rightarrow> fst (is_remote_projected_graph env w g) = Inr (Truth True))))"

fun all_privileged :: "'k env \<Rightarrow> 'k world \<Rightarrow> 'k request list \<Rightarrow> bool" where
  "all_privileged env w [] = True"
| "all_privileged env w (q # qs) =
     (privileged env w q \<and> all_privileged env (snd (snd (dispatch env w q))) qs)"

text \<open>
  Observations on a trace: the handshakes in it, the lookups, the forwarded calls, and
  the bearer token a forwarded call carries (at top level for the projection procedure,
  inside \<open>config.arrowConnectionInfo\<close> otherwise).
\<close>

fun is_handshake :: "'k event \<Rightarrow> bool" where
  "is_handshake (ClientAuthenticate u p) = True"
| "is_handshake _ = False"

definition handshakes :: "'k event list \<Rightarrow> nat" where
  "handshakes t = length (filter is_handshake t)"

fun is_procedure_call :: "'k event \<Rightarrow> bool" where
  "is_procedure_call (DelegateCallProcedure ep ys b ps) = True"
| "is_procedure_call _ = False"

fun is_forward :: "'k event \<Rightarrow> bool" where
  "is_forward (DelegateCallEndpoint ty ep ys b ps db ce) = True"
| "is_forward _ = False"

fun carried_token :: "'k event \<Rightarrow> pyval option" where
  "carried_token (DelegateCallEndpoint ty ep ys b ps db ce) =
     (if ep = GDS_REMOTE_PROJECTION_PROC_NAME then map_of ps ''token''
      else (case map_of ps ''config'' of
              Some (PDict c) \<Rightarrow>
                (case map_of c ''arrowConnectionInfo'' of
                   Some (PDict i) \<Rightarrow> map_of i ''bearerToken''
                 | _ \<Rightarrow> None)
            | _ \<Rightarrow> None))"
| "carried_token _ = None"

definition lookups :: "'k event list \<Rightarrow> nat" where
  "lookups t = length (filter is_procedure_call t)"

text \<open>The lookup a request makes before anything else, when it makes one.\<close>

definition lookup_events :: "'k request \<Rightarrow> 'k event list" where
  "lookup_events q =
     (if rq_endpoint q = GDS_REMOTE_PROJECTION_PROC_NAME then []
      else (case map_of (case rq_params q of None \<Rightarrow> [] | Some p \<Rightarrow> p) ''graph_name'' of
              None \<Rightarrow> []
            | Some g \<Rightarrow> [graph_list_call g]))"

section \<open>Scenario collaborators\<close>

text \<open>
  Concrete collaborators on which the theorems below are instantiated: a flight library
  that builds every location and client, a driver that opens and closes without
  exception and whose status frame is one row of the two columns \<open>running\<close> and
  \<open>advertisedListenAddress\<close> over an encrypted session, the runner built from the row
  that reports a running server at \<open>h:1234\<close>, a delegate that answers every lookup with
  \<open>remote\<close>, and a flight client whose handshake answers with the bearer token \<open>T\<close> and
  the address \<open>h2:5\<close>.
\<close>

definition scenario_flight :: flight_library where
  "scenario_flight =
     \<lparr>for_grpc_tls = (\<lambda>host port. None), for_grpc_tcp = (\<lambda>host port. None),
      flight_client = (\<lambda>loc. None)\<rparr>"

definition status_row :: "pyval \<Rightarrow> pyval \<Rightarrow> driver" where
  "status_row running address =
     \<lparr>driver_open = None,
      arrow_status = Inr \<lparr>frame_columns = [''running'', ''advertisedListenAddress''],
                            frame_rows = [[running, address]]\<rparr>,
      driver_encrypted = True,
      driver_close = None\<rparr>"

definition scenario_driver :: driver where
  "scenario_driver = status_row (PBool True) (PStr ''h:1234'')"

definition scenario_runner :: runner where
  "scenario_runner =
     \<lparr>auth = (''neo4j'', ''secret''), encrypted = True,
      client_location = \<lparr>loc_tls = True, loc_host = ''h'', loc_port = 1234\<rparr>,
      auth_pair_middleware = \<lparr>attr_token = None, attr_arrow_address = None\<rparr>\<rparr>"

definition scenario_env :: "unit env" where
  "scenario_env =
     \<lparr>delegate_call_endpoint = (\<lambda>h ty ep ys b ps db ce. Inr [[PStr ''done'']]),
      delegate_call_procedure = (\<lambda>h ep ys b ps. Inr [[PStr ''remote'']]),
      delegate_close = (\<lambda>h. None),
      client_authenticate_basic_token =
        (\<lambda>h u p. Responded [(''authorization'', PList [PStr ''Bearer T'']),
                              (''arrowpluginaddress'', PStr ''h2:5'')]),
      client_close = (\<lambda>h. None),
      middleware_failure = Some,
      builtin_str = (\<lambda>v. [])\<rparr>"

definition scenario_world :: "unit world" where
  "scenario_world = \<lparr>self = scenario_runner, trace = []\<rparr>"

text \<open>The scenario's state after one handshake.\<close>

definition authenticated_world :: "unit world" where
  "authenticated_world =
     \<lparr>self = scenario_runner\<lparr>auth_pair_middleware :=
               \<lparr>attr_token = Some ''T'', attr_arrow_address = Some ''h2:5''\<rparr>\<rparr>,
      trace = [ClientAuthenticate ''neo4j'' ''secret'']\<rparr>"

text \<open>The scenario's state after the lookup of graph \<open>g\<close>, and after the handshake that follows it.\<close>

definition looked_up_world :: "unit world" where
  "looked_up_world = scenario_world\<lparr>trace := [graph_list_call (PStr ''g'')]\<rparr>"

definition remote_write_world :: "unit world" where
  "remote_write_world =
     \<lparr>self = scenario_runner\<lparr>auth_pair_middleware :=
               \<lparr>attr_token = Some ''T'', attr_arrow_address = Some ''h2:5''\<rparr>\<rparr>,
      trace = [graph_list_call (PStr ''g''), ClientAuthenticate ''neo4j'' ''secret'']\<rparr>"

text \<open>Two privileged requests on graph \<open>g\<close>.\<close>

definition projection_request :: "unit request" where
  "projection_request =
     \<lparr>rq_type = (), rq_endpoint = GDS_REMOTE_PROJECTION_PROC_NAME, rq_yields = None, rq_body = None,
      rq_params = Some [(''graph_name'', PStr ''g'')], rq_database = None, rq_custom_error = True\<rparr>"

definition write_request :: "unit request" where
  "write_request =
     \<lparr>rq_type = (), rq_endpoint = ''gds.pageRank.write'', rq_yields = None, rq_body = None,
      rq_params = Some [(''graph_name'', PStr ''g''), (''config'', PDict [(''foo'', PInt 1)])],
      rq_database = None, rq_custom_error = True\<rparr>"

text \<open>
  A flight client whose first handshake answers with the bearer token \<open>T1\<close> and whose later
  handshakes answer with a Basic authorization header.
\<close>

definition stale_env :: "unit env" where
  "stale_env =
     scenario_env\<lparr>client_authenticate_basic_token :=
       (\<lambda>h u p. if h = []
                 then Responded [(''authorization'', PStr ''Bearer T1''),
                                 (''arrowpluginaddress'', PStr ''h2:5'')]
                 else Responded [(''authorization'', PStr ''Basic xyz''),
                                 (''arrowpluginaddress'', PStr ''h3:7'')])\<rparr>"

text \<open>A driver whose status row reports a running server listening at the given address.\<close>

definition listening_at :: "string \<Rightarrow> driver" where
  "listening_at s = status_row (PBool True) (PStr s)"

section \<open>Strings: splitting and unpacking\<close>

lemma split_on_nonempty: "split_on c s \<noteq> []"
  by (induction s) (auto split: list.splits)

lemma length_split_on: "length (split_on c s) = Suc (count_list s c)"
  by (induction s) (auto split: list.splits simp: split_on_nonempty)

lemma split_on_no_sep: "c \<notin> set s \<Longrightarrow> split_on c s = [s]"
  by (induction s) (auto split: list.splits)

lemma split_on_append: "c \<notin> set a \<Longrightarrow> split_on c (a @ c # b) = a # split_on c b"
  by (induction a) (auto split: list.splits)

lemma split_on_two: "c \<notin> set a \<Longrightarrow> c \<notin> set b \<Longrightarrow> split_on c (a @ c # b) = [a, b]"
  by (simp add: split_on_append split_on_no_sep)

lemma split_on_decompose:
  "split_on c s = p # ps \<Longrightarrow>
     c \<notin> set p \<and> (ps = [] \<and> s = p \<or> (\<exists>rest. s = p @ c # rest \<and> split_on c rest = ps))"
proof (induction s arbitrary: p ps)
  case Nil
  then show ?case by simp
next
  case (Cons x xs)
  show ?case
  proof (cases "x = c")
    case True
    with Cons.prems show ?thesis by auto
  next
    case False
    obtain q qs where q: "split_on c xs = q # qs"
      using split_on_nonempty [of c xs] by (cases "split_on c xs") auto
    with False Cons.prems have p: "p = x # q" "ps = qs" by auto
    from Cons.IH [OF q] False p show ?thesis by auto
  qed
qed

lemma split_on_two_iff:
  "split_on c s = [a, b] \<longleftrightarrow> s = a @ c # b \<and> c \<notin> set a \<and> c \<notin> set b"
proof
  assume h: "split_on c s = [a, b]"
  from split_on_decompose [OF h] obtain rest
    where r: "c \<notin> set a" "s = a @ c # rest" "split_on c rest = [b]"
    by auto
  from split_on_decompose [OF r(3)] have "c \<notin> set b" "rest = b"
    using split_on_nonempty [of c] by auto
  with r show "s = a @ c # b \<and> c \<notin> set a \<and> c \<notin> set b" by simp
next
  assume "s = a @ c # b \<and> c \<notin> set a \<and> c \<notin> set b"
  then show "split_on c s = [a, b]" by (simp add: split_on_two)
qed

lemma unpack2_Inr_iff: "unpack2 xs = Inr (a, b) \<longleftrightarrow> xs = [a, b]"
  by (cases xs rule: unpack2.cases) auto

lemma unpack2_Inl: "unpack2 xs = Inl e \<Longrightarrow> e = ValueError"
  by (cases xs rule: unpack2.cases) auto

lemma unpack2_length: "length xs \<noteq> 2 \<Longrightarrow> unpack2 xs = Inl ValueError"
  by (cases xs rule: unpack2.cases) auto

lemma split_once_two: "c \<notin> set a \<Longrightarrow> split_once c (a @ c # b) = [a, b]"
proof -
  assume h: "c \<notin> set a"
  then have "takeWhile (\<lambda>x. x \<noteq> c) (a @ c # b) = a"
    by (induction a) auto
  moreover from h have "dropWhile (\<lambda>x. x \<noteq> c) (a @ c # b) = c # b"
    by (induction a) auto
  ultimately show ?thesis by (simp add: split_once_def)
qed

section \<open>Closing the runner\<close>

text \<open>
  C1 as stated fails: \<open>close\<close> has no handler around the client's \<open>close\<close>, so an
  exception there leaves the method before the delegate is touched. With a client whose
  \<open>close\<close> raises, the trace holds the client's close only.
\<close>

theorem close_stops_at_client_failure:
  "close (scenario_env\<lparr>client_close := (\<lambda>h. Some (External ''client''))\<rparr>) scenario_world
     = (Some (External ''client''), scenario_world\<lparr>trace := [ClientClose]\<rparr>)
   \<and> DelegateClose \<notin> set (trace (snd (close
         (scenario_env\<lparr>client_close := (\<lambda>h. Some (External ''client''))\<rparr>) scenario_world)))"
  by (simp add: close_def log_event_def scenario_env_def scenario_world_def)

text \<open>
  C1, amended: \<open>close\<close> closes the flight client first. When that returns, the delegate
  is closed next and whatever its \<open>close\<close> raises is what the caller sees. When the
  client's \<open>close\<close> raises, that exception is what the caller sees and the delegate's
  \<open>close\<close> is not called.
\<close>

theorem close_order:
  "(client_close env (trace w) = None \<longrightarrow>
      close env w = (delegate_close env (trace w @ [ClientClose]),
                     w\<lparr>trace := trace w @ [ClientClose, DelegateClose]\<rparr>))
   \<and> (\<forall>e. client_close env (trace w) = Some e \<longrightarrow>
        close env w = (Some e, w\<lparr>trace := trace w @ [ClientClose]\<rparr>))"
  by (simp add: close_def log_event_def)

theorem close_order_witness:
  "client_close scenario_env (trace scenario_world) = None
   \<and> close scenario_env scenario_world
       = (None, scenario_world\<lparr>trace := [ClientClose, DelegateClose]\<rparr>)
   \<and> client_close (scenario_env\<lparr>client_close := (\<lambda>h. Some (External ''client''))\<rparr>)
         (trace scenario_world) = Some (External ''client'')
   \<and> close (scenario_env\<lparr>client_close := (\<lambda>h. Some (External ''client''))\<rparr>) scenario_world
       = (Some (External ''client''), scenario_world\<lparr>trace := [ClientClose]\<rparr>)"
  using close_order [of scenario_env scenario_world]
    close_order [of "scenario_env\<lparr>client_close := (\<lambda>h. Some (External ''client''))\<rparr>" scenario_world]
  by (simp add: scenario_env_def scenario_world_def)

section \<open>Construction\<close>

lemma py_int_Inl: "py_int s = Inl e \<Longrightarrow> e = ValueError"
  by (auto simp: py_int_def split: list.splits if_splits option.splits)

lemma py_int_9999: "py_int ''9999'' = Inr 9999"
  by code_simp

lemma squeeze_status_one_row:
  "frame_rows f = [r] \<Longrightarrow> length (frame_columns f) = length r \<Longrightarrow> length r \<noteq> 1 \<Longrightarrow>
   squeeze_status f = ColumnSeries (zip (frame_columns f) r)"
  by (auto simp: squeeze_status_def split: list.splits)

lemma filter_label_absent:
  "key \<notin> fst ` set s \<Longrightarrow> filter (\<lambda>kv. fst kv = key) s = []"
  by (induction s) auto

lemma filter_label_distinct:
  "distinct (map fst s) \<Longrightarrow>
   filter (\<lambda>kv. fst kv = key) s = (case map_of s key of None \<Rightarrow> [] | Some v \<Rightarrow> [(key, v)])"
proof (induction s)
  case Nil
  then show ?case by simp
next
  case (Cons kv s)
  show ?case
  proof (cases "fst kv = key")
    case True
    with Cons.prems have "key \<notin> fst ` set s" by auto
    then have "filter (\<lambda>kv. fst kv = key) s = []" by (rule filter_label_absent)
    with True show ?thesis by (cases kv) simp
  next
    case False
    with Cons show ?thesis by (cases kv) simp
  qed
qed

lemma series_get_distinct:
  "distinct (map fst s) \<Longrightarrow> series_get s key = Val (dict_get s key)"
  by (simp add: series_get_def dict_get_def filter_label_distinct split: option.splits)

lemma status_get_one_row:
  "frame_rows f = [r] \<Longrightarrow> length (frame_columns f) = length r \<Longrightarrow> length r \<noteq> 1 \<Longrightarrow>
   distinct (frame_columns f) \<Longrightarrow>
   status_get (squeeze_status f) key = Inr (Val (dict_get (zip (frame_columns f) r) key))"
  by (simp add: squeeze_status_one_row status_get_def series_get_distinct)

text \<open>
  On a status frame of one row whose columns are distinct and not one in number, the body
  of the \<open>with\<close> statement reads its two fields from the row.
\<close>

lemma with_block_one_row:
  assumes "arrow_status drv = Inr f" "frame_rows f = [r]" "length (frame_columns f) = length r"
    "length r \<noteq> 1" "distinct (frame_columns f)"
  shows "with_block drv fl uri a =
     (if \<not> truthy (dict_get (zip (frame_columns f) r) ''running'') then
        Inl (RuntimeError (not_running_message uri))
      else if \<not> truthy (dict_get (zip (frame_columns f) r) ''advertisedListenAddress'') then
        Inl (ConnectionError ''Did not retrieve connection info from database'')
      else
        (case dict_get (zip (frame_columns f) r) ''advertisedListenAddress'' of
           PStr s \<Rightarrow>
             (case unpack2 (split_on CHR '':'' s) of
                Inl e \<Rightarrow> Inl e
              | Inr (host, port_string) \<Rightarrow>
                  (case py_int port_string of
                     Inl e \<Rightarrow> Inl e
                   | Inr port \<Rightarrow>
                       (case (if driver_encrypted drv then for_grpc_tls fl host port
                              else for_grpc_tcp fl host port) of
                          Some e \<Rightarrow> Inl e
                        | None \<Rightarrow>
                            (case flight_client fl
                                    \<lparr>loc_tls = driver_encrypted drv, loc_host = host, loc_port = port\<rparr> of
                               Some e \<Rightarrow> Inl e
                             | None \<Rightarrow>
                                 Inr \<lparr>auth = a, encrypted = driver_encrypted drv,
                                      client_location =
                                        \<lparr>loc_tls = driver_encrypted drv, loc_host = host, loc_port = port\<rparr>,
                                      auth_pair_middleware =
                                        \<lparr>attr_token = None, attr_arrow_address = None\<rparr>\<rparr>))))
         | _ \<Rightarrow> Inl AttributeError))"
  using assms(1) status_get_one_row [OF assms(2-5)]
  by (simp add: with_block_def truth_of_def Let_def split: pyval.splits)

text \<open>The other shapes of the status frame, which the constructor does not survive.\<close>

lemma with_block_single_cell:
  "arrow_status drv = Inr f \<Longrightarrow> frame_rows f = [[v]] \<Longrightarrow> length (frame_columns f) = 1 \<Longrightarrow>
   (\<forall>d. v \<noteq> PDict d) \<Longrightarrow> with_block drv fl uri a = Inl AttributeError"
  by (cases v; cases "frame_columns f")
     (auto simp: with_block_def squeeze_status_def status_get_def split: list.splits)

lemma with_block_one_column:
  "arrow_status drv = Inr f \<Longrightarrow> length (frame_rows f) \<noteq> 1 \<Longrightarrow> length (frame_columns f) = 1 \<Longrightarrow>
   with_block drv fl uri a = Inl (RuntimeError (not_running_message uri))"
  by (cases "frame_columns f")
     (auto simp: with_block_def squeeze_status_def status_get_def truth_of_def split: list.splits)

lemma with_block_several_rows:
  "arrow_status drv = Inr f \<Longrightarrow> length (frame_rows f) \<noteq> 1 \<Longrightarrow> length (frame_columns f) \<noteq> 1 \<Longrightarrow>
   with_block drv fl uri a =
     (if ''running'' \<in> set (frame_columns f) then Inl ValueError
      else Inl (RuntimeError (not_running_message uri)))"
  by (auto simp: with_block_def squeeze_status_def status_get_def truth_of_def split: list.splits)

lemma init_closed:
  "driver_open drv = None \<Longrightarrow> driver_close drv = None \<Longrightarrow>
   init drv fl (uri, a) = with_block drv fl uri a"
  by (simp add: init_def)

lemma init_Inr:
  "init drv fl (uri, a) = Inr runner \<Longrightarrow>
   driver_close drv = None \<and> with_block drv fl uri a = Inr runner"
  by (auto simp: init_def split: option.splits)

lemma init_scenario:
  "init scenario_driver scenario_flight (''neo4j+s://db'', (''neo4j'', ''secret'')) = Inr scenario_runner"
  by code_simp

text \<open>
  C9: take a driver that opens and a status frame of one row whose columns are distinct
  and not one in number (the procedure's row has the two columns \<open>running\<close> and
  \<open>advertisedListenAddress\<close>). When the row has no \<open>running\<close> column, or holds \<open>None\<close> or
  false there, no runner is returned and the constructor raises \<open>RuntimeError\<close> (the
  spec's ServiceUnavailable) with a message that contains the queried endpoint. When
  \<open>running\<close> is true and the row has no \<open>advertisedListenAddress\<close> column or holds \<open>None\<close>
  there, no runner is returned and the constructor raises \<open>ConnectionError\<close> (the spec's
  ConnectionInfoMissing). The exception named is the one the caller sees when closing the
  driver does not raise in turn.
\<close>

theorem init_status_failures:
  "driver_open drv = None \<Longrightarrow> arrow_status drv = Inr f \<Longrightarrow> frame_rows f = [r] \<Longrightarrow>
   length (frame_columns f) = length r \<Longrightarrow> length r \<noteq> 1 \<Longrightarrow> distinct (frame_columns f) \<Longrightarrow>
   ((map_of (zip (frame_columns f) r) ''running'' = None
       \<or> map_of (zip (frame_columns f) r) ''running'' = Some PNone
       \<or> map_of (zip (frame_columns f) r) ''running'' = Some (PBool False)) \<longrightarrow>
      (\<forall>runner. init drv fl (uri, a) \<noteq> Inr runner)
      \<and> (driver_close drv = None \<longrightarrow>
            init drv fl (uri, a) = Inl (RuntimeError (not_running_message uri)))
      \<and> sublist uri (not_running_message uri))
   \<and> (map_of (zip (frame_columns f) r) ''running'' = Some (PBool True)
        \<and> (map_of (zip (frame_columns f) r) ''advertisedListenAddress'' = None
             \<or> map_of (zip (frame_columns f) r) ''advertisedListenAddress'' = Some PNone) \<longrightarrow>
      (\<forall>runner. init drv fl (uri, a) \<noteq> Inr runner)
      \<and> (driver_close drv = None \<longrightarrow>
            init drv fl (uri, a)
              = Inl (ConnectionError ''Did not retrieve connection info from database'')))"
proof -
  assume o: "driver_open drv = None"
    and shape: "arrow_status drv = Inr f" "frame_rows f = [r]" "length (frame_columns f) = length r"
      "length r \<noteq> 1" "distinct (frame_columns f)"
  note block = with_block_one_row [OF shape, of fl uri a]
  have sub: "sublist uri (not_running_message uri)"
    unfolding not_running_message_def by (rule sublist_appendI)
  have stopped: "with_block drv fl uri a = Inl (RuntimeError (not_running_message uri))"
    if "map_of (zip (frame_columns f) r) ''running'' = None
       \<or> map_of (zip (frame_columns f) r) ''running'' = Some PNone
       \<or> map_of (zip (frame_columns f) r) ''running'' = Some (PBool False)"
    using that block by (auto simp: dict_get_def)
  have missing: "with_block drv fl uri a
                   = Inl (ConnectionError ''Did not retrieve connection info from database'')"
    if "map_of (zip (frame_columns f) r) ''running'' = Some (PBool True)
        \<and> (map_of (zip (frame_columns f) r) ''advertisedListenAddress'' = None
             \<or> map_of (zip (frame_columns f) r) ''advertisedListenAddress'' = Some PNone)"
    using that block by (auto simp: dict_get_def)
  have none: "\<forall>runner. init drv fl (uri, a) \<noteq> Inr runner" if "with_block drv fl uri a = Inl e" for e
    using that init_Inr [of drv fl uri a] by auto
  have closed: "init drv fl (uri, a) = with_block drv fl uri a" if "driver_close drv = None"
    using o that by (rule init_closed)
  from stopped missing none closed sub show ?thesis by metis
qed

theorem init_status_failures_witness:
  "init (status_row (PBool False) (PStr ''h:1234'')) scenario_flight
        (''neo4j+s://db'', (''neo4j'', ''secret''))
      = Inl (RuntimeError ''The Arrow Server is not running at `neo4j+s://db`'')
   \<and> init (status_row PNone (PStr ''h:1234'')) scenario_flight
        (''neo4j+s://db'', (''neo4j'', ''secret''))
      = Inl (RuntimeError ''The Arrow Server is not running at `neo4j+s://db`'')
   \<and> init (status_row (PBool True) PNone) scenario_flight
        (''neo4j+s://db'', (''neo4j'', ''secret''))
      = Inl (ConnectionError ''Did not retrieve connection info from database'')
   \<and> sublist ''neo4j+s://db'' (not_running_message ''neo4j+s://db'')
   \<and> map_of (zip [''advertisedListenAddress'', ''enabled''] [PStr ''h:1234'', PBool True]) ''running''
       = None
   \<and> init \<lparr>driver_open = None,
             arrow_status = Inr \<lparr>frame_columns = [''advertisedListenAddress'', ''enabled''],
                                   frame_rows = [[PStr ''h:1234'', PBool True]]\<rparr>,
             driver_encrypted = True, driver_close = None\<rparr> scenario_flight
        (''neo4j+s://db'', (''neo4j'', ''secret''))
      = Inl (RuntimeError ''The Arrow Server is not running at `neo4j+s://db`'')
   \<and> map_of (zip [''running'', ''enabled''] [PBool True, PBool True]) ''advertisedListenAddress''
       = None
   \<and> init \<lparr>driver_open = None,
             arrow_status = Inr \<lparr>frame_columns = [''running'', ''enabled''],
                                   frame_rows = [[PBool True, PBool True]]\<rparr>,
             driver_encrypted = True, driver_close = None\<rparr> scenario_flight
        (''neo4j+s://db'', (''neo4j'', ''secret''))
      = Inl (ConnectionError ''Did not retrieve connection info from database'')"
proof -
  let ?cols = "[''running'', ''advertisedListenAddress'']"
  let ?d1 = "\<lparr>driver_open = None,
             arrow_status = Inr \<lparr>frame_columns = [''advertisedListenAddress'', ''enabled''],
                                   frame_rows = [[PStr ''h:1234'', PBool True]]\<rparr>,
             driver_encrypted = True, driver_close = None\<rparr>"
  let ?d2 = "\<lparr>driver_open = None,
             arrow_status = Inr \<lparr>frame_columns = [''running'', ''enabled''],
                                   frame_rows = [[PBool True, PBool True]]\<rparr>,
             driver_encrypted = True, driver_close = None\<rparr>"
  have m1: "map_of (zip [''advertisedListenAddress'', ''enabled''] [PStr ''h:1234'', PBool True])
              ''running'' = None"
    and m2: "map_of (zip [''running'', ''enabled''] [PBool True, PBool True]) ''running''
               = Some (PBool True)"
      "map_of (zip [''running'', ''enabled''] [PBool True, PBool True]) ''advertisedListenAddress''
         = None"
    by simp_all
  have e1: "init ?d1 scenario_flight (''neo4j+s://db'', (''neo4j'', ''secret''))
      = Inl (RuntimeError (not_running_message ''neo4j+s://db''))"
    using init_status_failures [of ?d1
        "\<lparr>frame_columns = [''advertisedListenAddress'', ''enabled''],
          frame_rows = [[PStr ''h:1234'', PBool True]]\<rparr>"
        "[PStr ''h:1234'', PBool True]" scenario_flight "''neo4j+s://db''" "(''neo4j'', ''secret'')",
        THEN conjunct1, THEN mp]
      m1
    by simp
  have e2: "init ?d2 scenario_flight (''neo4j+s://db'', (''neo4j'', ''secret''))
      = Inl (ConnectionError ''Did not retrieve connection info from database'')"
    using init_status_failures [of ?d2
        "\<lparr>frame_columns = [''running'', ''enabled''], frame_rows = [[PBool True, PBool True]]\<rparr>"
        "[PBool True, PBool True]" scenario_flight "''neo4j+s://db''" "(''neo4j'', ''secret'')",
        THEN conjunct2, THEN mp]
      m2
    by simp
  have shape: "driver_open (status_row x y) = None"
    "arrow_status (status_row x y) = Inr \<lparr>frame_columns = ?cols, frame_rows = [[x, y]]\<rparr>"
    "frame_rows \<lparr>frame_columns = ?cols, frame_rows = [[x, y]]\<rparr> = [[x, y]]"
    "length (frame_columns \<lparr>frame_columns = ?cols, frame_rows = [[x, y]]\<rparr>) = length [x, y]"
    "length [x, y] \<noteq> 1"
    "distinct (frame_columns \<lparr>frame_columns = ?cols, frame_rows = [[x, y]]\<rparr>)" for x y
    by (simp_all add: status_row_def)
  have closes: "driver_close (status_row x y) = None" for x y
    by (simp add: status_row_def)
  note t1 = init_status_failures [OF shape, of "PBool False" "PStr ''h:1234''" scenario_flight
      "''neo4j+s://db''" "(''neo4j'', ''secret'')", THEN conjunct1, THEN mp]
  note t2 = init_status_failures [OF shape, of PNone "PStr ''h:1234''" scenario_flight
      "''neo4j+s://db''" "(''neo4j'', ''secret'')", THEN conjunct1, THEN mp]
  note t3 = init_status_failures [OF shape, of "PBool True" PNone scenario_flight
      "''neo4j+s://db''" "(''neo4j'', ''secret'')", THEN conjunct2, THEN mp]
  have a: "init (status_row (PBool False) (PStr ''h:1234'')) scenario_flight
        (''neo4j+s://db'', (''neo4j'', ''secret''))
      = Inl (RuntimeError (not_running_message ''neo4j+s://db''))"
    and s: "sublist ''neo4j+s://db'' (not_running_message ''neo4j+s://db'')"
    using t1 closes by simp_all
  have b: "init (status_row PNone (PStr ''h:1234'')) scenario_flight
        (''neo4j+s://db'', (''neo4j'', ''secret''))
      = Inl (RuntimeError (not_running_message ''neo4j+s://db''))"
    using t2 closes by simp
  have c: "init (status_row (PBool True) PNone) scenario_flight
        (''neo4j+s://db'', (''neo4j'', ''secret''))
      = Inl (ConnectionError ''Did not retrieve connection info from database'')"
    using t3 closes by simp
  from a b c s m1 m2 e1 e2 show ?thesis by (simp add: not_running_message_def)
qed


text \<open>
  C2 as stated fails: the constructor splits on every colon and unpacks into exactly two
  parts, so an address with a second colon is not split at its last colon but rejected.
\<close>

theorem init_rejects_second_colon:
  "init (listening_at ''[::1]:8491'') scenario_flight (''neo4j+s://db'', (''neo4j'', ''secret''))
     = Inl ValueError"
  by code_simp

text \<open>
  C2, amended: take a driver that opens and a status frame of one row, with distinct
  columns that are not one in number, reporting a running server and an advertised
  listen address. If the constructor accepts, the address holds exactly one colon; the
  text before it is the host and the text after it, read by \<open>int\<close>, the port of the
  location the client is built for. An address whose number of colons is not one, or
  whose port text is not an integer, gives no runner and raises \<open>ValueError\<close> (the
  spec's ProtocolError; it is the exception the caller sees when closing the driver does
  not raise in turn). In particular \<open>10.0.0.5:9999\<close> is split into host \<open>10.0.0.5\<close> and port
  9999: no other location can come out of it, and it comes out when the flight library
  builds that location and its client.
\<close>

theorem init_address_split:
  "driver_open drv = None \<Longrightarrow> arrow_status drv = Inr f \<Longrightarrow> frame_rows f = [r] \<Longrightarrow>
   length (frame_columns f) = length r \<Longrightarrow> length r \<noteq> 1 \<Longrightarrow> distinct (frame_columns f) \<Longrightarrow>
   map_of (zip (frame_columns f) r) ''running'' = Some running \<Longrightarrow> truthy running \<Longrightarrow>
   map_of (zip (frame_columns f) r) ''advertisedListenAddress'' = Some (PStr s) \<Longrightarrow> s \<noteq> [] \<Longrightarrow>
   (\<forall>runner. init drv fl (uri, a) = Inr runner \<longrightarrow>
      (\<exists>host port_string. s = host @ '':'' @ port_string
         \<and> CHR '':'' \<notin> set host \<and> CHR '':'' \<notin> set port_string
         \<and> loc_host (client_location runner) = host
         \<and> py_int port_string = Inr (loc_port (client_location runner))))
   \<and> (count_list s CHR '':'' \<noteq> 1 \<longrightarrow>
        (\<forall>runner. init drv fl (uri, a) \<noteq> Inr runner)
        \<and> (driver_close drv = None \<longrightarrow> init drv fl (uri, a) = Inl ValueError))
   \<and> (\<forall>host port_string e.
        s = host @ '':'' @ port_string \<and> py_int port_string = Inl e \<longrightarrow>
        (\<forall>runner. init drv fl (uri, a) \<noteq> Inr runner)
        \<and> (driver_close drv = None \<longrightarrow> init drv fl (uri, a) = Inl ValueError))
   \<and> (s = ''10.0.0.5:9999'' \<longrightarrow>
        (\<forall>runner. init drv fl (uri, a) = Inr runner \<longrightarrow>
           loc_host (client_location runner) = ''10.0.0.5''
           \<and> loc_port (client_location runner) = 9999)
        \<and> (driver_close drv = None
             \<and> (if driver_encrypted drv then for_grpc_tls fl ''10.0.0.5'' 9999
                  else for_grpc_tcp fl ''10.0.0.5'' 9999) = None
             \<and> flight_client fl \<lparr>loc_tls = driver_encrypted drv, loc_host = ''10.0.0.5'',
                                    loc_port = 9999\<rparr> = None \<longrightarrow>
             init drv fl (uri, a)
               = Inr \<lparr>auth = a, encrypted = driver_encrypted drv,
                      client_location = \<lparr>loc_tls = driver_encrypted drv, loc_host = ''10.0.0.5'',
                                         loc_port = 9999\<rparr>,
                      auth_pair_middleware = \<lparr>attr_token = None, attr_arrow_address = None\<rparr>\<rparr>))"
proof -
  assume o: "driver_open drv = None"
    and shape: "arrow_status drv = Inr f" "frame_rows f = [r]" "length (frame_columns f) = length r"
      "length r \<noteq> 1" "distinct (frame_columns f)"
    and fields: "map_of (zip (frame_columns f) r) ''running'' = Some running" "truthy running"
      "map_of (zip (frame_columns f) r) ''advertisedListenAddress'' = Some (PStr s)" "s \<noteq> []"
  have block: "with_block drv fl uri a =
     (case unpack2 (split_on CHR '':'' s) of
        Inl e \<Rightarrow> Inl e
      | Inr (host, port_string) \<Rightarrow>
          (case py_int port_string of
             Inl e \<Rightarrow> Inl e
           | Inr port \<Rightarrow>
               (case (if driver_encrypted drv then for_grpc_tls fl host port
                      else for_grpc_tcp fl host port) of
                  Some e \<Rightarrow> Inl e
                | None \<Rightarrow>
                    (case flight_client fl
                            \<lparr>loc_tls = driver_encrypted drv, loc_host = host, loc_port = port\<rparr> of
                       Some e \<Rightarrow> Inl e
                     | None \<Rightarrow>
                         Inr \<lparr>auth = a, encrypted = driver_encrypted drv,
                              client_location =
                                \<lparr>loc_tls = driver_encrypted drv, loc_host = host, loc_port = port\<rparr>,
                              auth_pair_middleware =
                                \<lparr>attr_token = None, attr_arrow_address = None\<rparr>\<rparr>))))"
    using with_block_one_row [OF shape, of fl uri a] fields by (simp add: dict_get_def)
  have none: "\<forall>runner. init drv fl (uri, a) \<noteq> Inr runner" if "with_block drv fl uri a = Inl e" for e
    using that init_Inr [of drv fl uri a] by auto
  have closed: "init drv fl (uri, a) = with_block drv fl uri a" if "driver_close drv = None"
    using o that by (rule init_closed)
  have accepted: "\<exists>host port_string. s = host @ '':'' @ port_string
         \<and> CHR '':'' \<notin> set host \<and> CHR '':'' \<notin> set port_string
         \<and> loc_host (client_location runner) = host
         \<and> py_int port_string = Inr (loc_port (client_location runner))"
    if "init drv fl (uri, a) = Inr runner" for runner
  proof -
    from that have w: "with_block drv fl uri a = Inr runner" using init_Inr by blast
    from w block obtain host port_string port where
      u: "unpack2 (split_on CHR '':'' s) = Inr (host, port_string)" and
      p: "py_int port_string = Inr port" and
      l: "loc_host (client_location runner) = host" "loc_port (client_location runner) = port"
      by (auto split: sum.splits option.splits)
    from u have "split_on CHR '':'' s = [host, port_string]" by (simp add: unpack2_Inr_iff)
    then have "s = host @ CHR '':'' # port_string \<and> CHR '':'' \<notin> set host \<and> CHR '':'' \<notin> set port_string"
      by (simp add: split_on_two_iff)
    with p l show ?thesis by auto
  qed
  have colons: "with_block drv fl uri a = Inl ValueError" if "count_list s CHR '':'' \<noteq> 1"
  proof -
    from that have "length (split_on CHR '':'' s) \<noteq> 2" by (simp add: length_split_on)
    then show ?thesis using block by (simp add: unpack2_length)
  qed
  have port: "with_block drv fl uri a = Inl ValueError"
    if "s = host @ '':'' @ port_string \<and> py_int port_string = Inl e" for host port_string e
  proof (cases "CHR '':'' \<in> set host \<or> CHR '':'' \<in> set port_string")
    case True
    with that have "count_list s CHR '':'' \<noteq> 1"
      by (auto simp: count_list_0_iff dest!: count_list_0_iff [THEN iffD1, rotated])
    then show ?thesis by (rule colons)
  next
    case False
    with that have "split_on CHR '':'' s = [host, port_string]" by (simp add: split_on_two)
    moreover from that have "py_int port_string = Inl ValueError" using py_int_Inl by blast
    ultimately show ?thesis using block by simp
  qed
  have split_example: "split_on CHR '':'' ''10.0.0.5:9999'' = [''10.0.0.5'', ''9999'']"
    by simp
  have only: "loc_host (client_location runner) = ''10.0.0.5''
           \<and> loc_port (client_location runner) = 9999"
    if "s = ''10.0.0.5:9999''" "init drv fl (uri, a) = Inr runner" for runner
  proof -
    from that(2) have "with_block drv fl uri a = Inr runner" using init_Inr by blast
    with block that(1) split_example py_int_9999 show ?thesis
      by (auto split: option.splits)
  qed
  have built: "init drv fl (uri, a)
               = Inr \<lparr>auth = a, encrypted = driver_encrypted drv,
                      client_location = \<lparr>loc_tls = driver_encrypted drv, loc_host = ''10.0.0.5'',
                                         loc_port = 9999\<rparr>,
                      auth_pair_middleware = \<lparr>attr_token = None, attr_arrow_address = None\<rparr>\<rparr>"
    if "s = ''10.0.0.5:9999''"
      "driver_close drv = None
             \<and> (if driver_encrypted drv then for_grpc_tls fl ''10.0.0.5'' 9999
                  else for_grpc_tcp fl ''10.0.0.5'' 9999) = None
             \<and> flight_client fl \<lparr>loc_tls = driver_encrypted drv, loc_host = ''10.0.0.5'',
                                    loc_port = 9999\<rparr> = None"
  proof -
    from that(2) have "init drv fl (uri, a) = with_block drv fl uri a" using closed by simp
    with block that split_example py_int_9999 show ?thesis by simp
  qed
  have c1: "count_list s CHR '':'' \<noteq> 1 \<longrightarrow>
        (\<forall>runner. init drv fl (uri, a) \<noteq> Inr runner)
        \<and> (driver_close drv = None \<longrightarrow> init drv fl (uri, a) = Inl ValueError)"
    using colons none closed by simp
  have c2: "\<forall>host port_string e.
        s = host @ '':'' @ port_string \<and> py_int port_string = Inl e \<longrightarrow>
        (\<forall>runner. init drv fl (uri, a) \<noteq> Inr runner)
        \<and> (driver_close drv = None \<longrightarrow> init drv fl (uri, a) = Inl ValueError)"
  proof (intro allI impI)
    fix host port_string e
    assume "s = host @ '':'' @ port_string \<and> py_int port_string = Inl e"
    then have "with_block drv fl uri a = Inl ValueError" by (rule port)
    with none closed show "(\<forall>runner. init drv fl (uri, a) \<noteq> Inr runner)
        \<and> (driver_close drv = None \<longrightarrow> init drv fl (uri, a) = Inl ValueError)"
      by simp
  qed
  from accepted have c0: "\<forall>runner. init drv fl (uri, a) = Inr runner \<longrightarrow>
      (\<exists>host port_string. s = host @ '':'' @ port_string
         \<and> CHR '':'' \<notin> set host \<and> CHR '':'' \<notin> set port_string
         \<and> loc_host (client_location runner) = host
         \<and> py_int port_string = Inr (loc_port (client_location runner)))"
    by blast
  from only built have c3: "s = ''10.0.0.5:9999'' \<longrightarrow>
        (\<forall>runner. init drv fl (uri, a) = Inr runner \<longrightarrow>
           loc_host (client_location runner) = ''10.0.0.5''
           \<and> loc_port (client_location runner) = 9999)
        \<and> (driver_close drv = None
             \<and> (if driver_encrypted drv then for_grpc_tls fl ''10.0.0.5'' 9999
                  else for_grpc_tcp fl ''10.0.0.5'' 9999) = None
             \<and> flight_client fl \<lparr>loc_tls = driver_encrypted drv, loc_host = ''10.0.0.5'',
                                    loc_port = 9999\<rparr> = None \<longrightarrow>
             init drv fl (uri, a)
               = Inr \<lparr>auth = a, encrypted = driver_encrypted drv,
                      client_location = \<lparr>loc_tls = driver_encrypted drv, loc_host = ''10.0.0.5'',
                                         loc_port = 9999\<rparr>,
                      auth_pair_middleware = \<lparr>attr_token = None, attr_arrow_address = None\<rparr>\<rparr>)"
    by blast
  from c0 c1 c2 c3 show ?thesis by (intro conjI)
qed

theorem init_address_split_witness:
  "init (listening_at ''10.0.0.5:9999'') scenario_flight (''neo4j+s://db'', (''neo4j'', ''secret''))
     = Inr \<lparr>auth = (''neo4j'', ''secret''), encrypted = True,
            client_location = \<lparr>loc_tls = True, loc_host = ''10.0.0.5'', loc_port = 9999\<rparr>,
            auth_pair_middleware = \<lparr>attr_token = None, attr_arrow_address = None\<rparr>\<rparr>
   \<and> count_list ''[::1]:8491'' CHR '':'' = 3
   \<and> init (listening_at ''[::1]:8491'') scenario_flight (''neo4j+s://db'', (''neo4j'', ''secret''))
       = Inl ValueError
   \<and> py_int ''http'' = Inl ValueError
   \<and> init (listening_at ''h:http'') scenario_flight (''neo4j+s://db'', (''neo4j'', ''secret''))
       = Inl ValueError"
proof -
  let ?cols = "[''running'', ''advertisedListenAddress'']"
  let ?f = "\<lambda>s. \<lparr>frame_columns = ?cols, frame_rows = [[PBool True, PStr s]]\<rparr>"
  have pre: "driver_open (listening_at s) = None"
    "arrow_status (listening_at s) = Inr (?f s)"
    "frame_rows (?f s) = [[PBool True, PStr s]]"
    "length (frame_columns (?f s)) = length [PBool True, PStr s]"
    "length [PBool True, PStr s] \<noteq> 1"
    "distinct (frame_columns (?f s))"
    "map_of (zip (frame_columns (?f s)) [PBool True, PStr s]) ''running'' = Some (PBool True)"
    "truthy (PBool True)"
    "map_of (zip (frame_columns (?f s)) [PBool True, PStr s]) ''advertisedListenAddress'' = Some (PStr s)"
    for s
    by (simp_all add: listening_at_def status_row_def)
  have closes: "driver_close (listening_at s) = None" "driver_encrypted (listening_at s) = True" for s
    by (simp_all add: listening_at_def status_row_def)
  have p2: "py_int ''http'' = Inl ValueError" by code_simp
  have c: "count_list ''[::1]:8491'' CHR '':'' = 3" by simp
  have n1: "''10.0.0.5:9999'' \<noteq> []" and n2: "''[::1]:8491'' \<noteq> []" and n3: "''h:http'' \<noteq> []"
    by simp_all
  note t1 = init_address_split [OF pre n1, of scenario_flight "''neo4j+s://db''" "(''neo4j'', ''secret'')"]
  note t2 = init_address_split [OF pre n2, of scenario_flight "''neo4j+s://db''" "(''neo4j'', ''secret'')"]
  note t3 = init_address_split [OF pre n3, of scenario_flight "''neo4j+s://db''" "(''neo4j'', ''secret'')"]
  have a: "init (listening_at ''10.0.0.5:9999'') scenario_flight (''neo4j+s://db'', (''neo4j'', ''secret''))
     = Inr \<lparr>auth = (''neo4j'', ''secret''), encrypted = True,
            client_location = \<lparr>loc_tls = True, loc_host = ''10.0.0.5'', loc_port = 9999\<rparr>,
            auth_pair_middleware = \<lparr>attr_token = None, attr_arrow_address = None\<rparr>\<rparr>"
    using t1 [THEN conjunct2, THEN conjunct2, THEN conjunct2, THEN mp, OF refl, THEN conjunct2, THEN mp]
      closes
    by (simp add: scenario_flight_def)
  have b: "init (listening_at ''[::1]:8491'') scenario_flight (''neo4j+s://db'', (''neo4j'', ''secret''))
       = Inl ValueError"
    using t2 [THEN conjunct2, THEN conjunct1, THEN mp, THEN conjunct2, THEN mp] c closes
    by simp
  have d: "init (listening_at ''h:http'') scenario_flight (''neo4j+s://db'', (''neo4j'', ''secret''))
       = Inl ValueError"
  proof -
    have "''h:http'' = ''h'' @ '':'' @ ''http'' \<and> py_int ''http'' = Inl ValueError"
      using p2 by simp
    from t3 [THEN conjunct2, THEN conjunct2, THEN conjunct1, THEN spec, THEN spec, THEN spec,
        THEN mp, OF this, THEN conjunct2, THEN mp, OF closes(1)]
    show ?thesis .
  qed
  from a b c d p2 show ?thesis by simp
qed


section \<open>The middleware\<close>

lemma read_auth_header_str:
  "CHR '' '' \<notin> set scheme \<Longrightarrow> read_auth_header (PStr (scheme @ '' '' @ cred)) = Inr (scheme, cred)"
  by (simp add: read_auth_header_def split_once_two)

lemma read_auth_header_list:
  "CHR '' '' \<notin> set scheme \<Longrightarrow>
   read_auth_header (PList (PStr (scheme @ '' '' @ cred) # rest)) = Inr (scheme, cred)"
  by (simp add: read_auth_header_def split_once_two)

lemma read_auth_header_shape:
  "(\<forall>s. v \<noteq> PStr s) \<Longrightarrow> (\<forall>xs. v \<noteq> PList xs) \<Longrightarrow> read_auth_header v = Inl ValueError"
  by (cases v) (simp_all add: read_auth_header_def)

lemma received_headers_token:
  "read_auth_header (dict_get headers ''authorization'') = Inr (scheme, cred) \<Longrightarrow>
   attr_token (snd (received_headers env m headers)) = (if scheme = ''Bearer'' then Some cred else attr_token m)"
  by (simp add: received_headers_def Let_def split: sum.splits)

text \<open>
  C8: \<open>received_headers\<close> takes the \<open>authorization\<close> header as a string or as the first
  element of a list, splits it at the first space into scheme and credential, and stores
  the credential as the token exactly when the scheme is \<open>Bearer\<close>; with another scheme
  the token attribute is left as it was. A header that is neither a string nor a list
  raises \<open>ValueError\<close> (the spec's ProtocolError) and changes nothing. Whatever the
  headers, the token changes only to the credential of a Bearer header. The list
  \<open>['Bearer abc123']\<close> gives the token \<open>abc123\<close>; the string \<open>Basic xyz\<close> leaves the
  token as it was.
\<close>

theorem received_headers_authorization:
  "(\<forall>s scheme cred.
      (dict_get headers ''authorization'' = PStr s
         \<or> (\<exists>rest. dict_get headers ''authorization'' = PList (PStr s # rest)))
      \<and> s = scheme @ '' '' @ cred \<and> CHR '' '' \<notin> set scheme \<longrightarrow>
      read_auth_header (dict_get headers ''authorization'') = Inr (scheme, cred)
      \<and> attr_token (snd (received_headers env m headers))
          = (if scheme = ''Bearer'' then Some cred else attr_token m))
   \<and> ((\<forall>s. dict_get headers ''authorization'' \<noteq> PStr s)
        \<and> (\<forall>xs. dict_get headers ''authorization'' \<noteq> PList xs) \<longrightarrow>
        received_headers env m headers = (Some ValueError, m))
   \<and> (dict_get headers ''authorization'' = PList [PStr ''Bearer abc123''] \<longrightarrow>
        attr_token (snd (received_headers env m headers)) = Some ''abc123'')
   \<and> (dict_get headers ''authorization'' = PStr ''Basic xyz'' \<longrightarrow>
        attr_token (snd (received_headers env m headers)) = attr_token m)
   \<and> (attr_token (snd (received_headers env m headers)) \<noteq> attr_token m \<longrightarrow>
        (\<exists>cred. read_auth_header (dict_get headers ''authorization'') = Inr (''Bearer'', cred)
           \<and> attr_token (snd (received_headers env m headers)) = Some cred))"
proof -
  have parsed: "read_auth_header (dict_get headers ''authorization'') = Inr (scheme, cred)"
    if "(dict_get headers ''authorization'' = PStr s
         \<or> (\<exists>rest. dict_get headers ''authorization'' = PList (PStr s # rest)))
      \<and> s = scheme @ '' '' @ cred \<and> CHR '' '' \<notin> set scheme" for s scheme cred
    using that read_auth_header_str [of scheme cred] read_auth_header_list [of scheme cred]
    by auto
  have shape: "received_headers env m headers = (Some ValueError, m)"
    if "(\<forall>s. dict_get headers ''authorization'' \<noteq> PStr s)
        \<and> (\<forall>xs. dict_get headers ''authorization'' \<noteq> PList xs)"
    using that read_auth_header_shape [of "dict_get headers ''authorization''"]
    by (simp add: received_headers_def)
  have bearer: "attr_token (snd (received_headers env m headers)) = Some ''abc123''"
    if "dict_get headers ''authorization'' = PList [PStr ''Bearer abc123'']"
  proof -
    have "read_auth_header (PList [PStr (''Bearer'' @ '' '' @ ''abc123'')]) = Inr (''Bearer'', ''abc123'')"
      by (rule read_auth_header_list) simp
    with that show ?thesis by (simp add: received_headers_token)
  qed
  have basic: "attr_token (snd (received_headers env m headers)) = attr_token m"
    if "dict_get headers ''authorization'' = PStr ''Basic xyz''"
  proof -
    have "read_auth_header (PStr (''Basic'' @ '' '' @ ''xyz'')) = Inr (''Basic'', ''xyz'')"
      by (rule read_auth_header_str) simp
    with that show ?thesis by (simp add: received_headers_token)
  qed
  have only_bearer: "\<exists>cred. read_auth_header (dict_get headers ''authorization'') = Inr (''Bearer'', cred)
           \<and> attr_token (snd (received_headers env m headers)) = Some cred"
    if "attr_token (snd (received_headers env m headers)) \<noteq> attr_token m"
    using that by (auto simp: received_headers_def Let_def split: sum.splits prod.splits if_splits)
  from parsed shape bearer basic only_bearer show ?thesis
    by (simp add: received_headers_token)
qed

theorem received_headers_authorization_witness:
  "attr_token (snd (received_headers scenario_env \<lparr>attr_token = None, attr_arrow_address = None\<rparr>
      [(''authorization'', PList [PStr ''Bearer abc123'']), (''arrowpluginaddress'', PStr ''h2:5'')]))
     = Some ''abc123''
   \<and> attr_token (snd (received_headers scenario_env \<lparr>attr_token = None, attr_arrow_address = None\<rparr>
      [(''authorization'', PStr ''Basic xyz''), (''arrowpluginaddress'', PStr ''h2:5'')]))
     = None
   \<and> attr_token (snd (received_headers scenario_env \<lparr>attr_token = Some ''old'', attr_arrow_address = None\<rparr>
      [(''authorization'', PStr ''Bearer new''), (''arrowpluginaddress'', PStr ''h2:5'')]))
     = Some ''new''
   \<and> received_headers scenario_env \<lparr>attr_token = Some ''old'', attr_arrow_address = None\<rparr>
      [(''authorization'', PInt 7), (''arrowpluginaddress'', PStr ''h2:5'')]
     = (Some ValueError, \<lparr>attr_token = Some ''old'', attr_arrow_address = None\<rparr>)
   \<and> attr_token (snd (received_headers scenario_env \<lparr>attr_token = Some ''old'', attr_arrow_address = None\<rparr>
      [(''authorization'', PStr ''Bearer new''), (''arrowpluginaddress'', PStr ''h2:5'')]))
     \<noteq> attr_token \<lparr>attr_token = Some ''old'', attr_arrow_address = None\<rparr>
   \<and> (\<exists>cred. read_auth_header (dict_get
         [(''authorization'', PStr ''Bearer new''), (''arrowpluginaddress'', PStr ''h2:5'')]
         ''authorization'') = Inr (''Bearer'', cred))"
proof -
  let ?h1 = "[(''authorization'', PList [PStr ''Bearer abc123'']), (''arrowpluginaddress'', PStr ''h2:5'')]"
  let ?h2 = "[(''authorization'', PStr ''Basic xyz''), (''arrowpluginaddress'', PStr ''h2:5'')]"
  let ?h3 = "[(''authorization'', PStr ''Bearer new''), (''arrowpluginaddress'', PStr ''h2:5'')]"
  let ?h4 = "[(''authorization'', PInt 7), (''arrowpluginaddress'', PStr ''h2:5'')]"
  let ?fresh = "\<lparr>attr_token = None, attr_arrow_address = None\<rparr>"
  let ?old = "\<lparr>attr_token = Some ''old'', attr_arrow_address = None\<rparr>"
  have d1: "dict_get ?h1 ''authorization'' = PList [PStr ''Bearer abc123'']"
    and d2: "dict_get ?h2 ''authorization'' = PStr ''Basic xyz''"
    and d3: "dict_get ?h3 ''authorization'' = PStr ''Bearer new''"
    and d4: "dict_get ?h4 ''authorization'' = PInt 7"
    by (simp_all add: dict_get_def)
  note t1 = received_headers_authorization [of ?h1 scenario_env ?fresh]
  note t2 = received_headers_authorization [of ?h2 scenario_env ?fresh]
  note t3 = received_headers_authorization [of ?h3 scenario_env ?old]
  note t4 = received_headers_authorization [of ?h4 scenario_env ?old]
  have a: "attr_token (snd (received_headers scenario_env ?fresh ?h1)) = Some ''abc123''"
    using t1 d1 by blast
  have b: "attr_token (snd (received_headers scenario_env ?fresh ?h2)) = None"
    using t2 d2 by simp
  have "attr_token (snd (received_headers scenario_env ?old ?h3))
          = (if ''Bearer'' = ''Bearer'' then Some ''new'' else attr_token ?old)"
    using t3 [THEN conjunct1, rule_format, of "''Bearer new''" "''Bearer''" "''new''"] d3
    by simp
  then have c: "attr_token (snd (received_headers scenario_env ?old ?h3)) = Some ''new''"
    by simp
  have d: "received_headers scenario_env ?old ?h4 = (Some ValueError, ?old)"
    using t4 d4 by simp
  have e: "attr_token (snd (received_headers scenario_env ?old ?h3)) \<noteq> attr_token ?old"
    using c by simp
  have f: "\<exists>cred. read_auth_header (dict_get ?h3 ''authorization'') = Inr (''Bearer'', cred)"
    using t3 [THEN conjunct2, THEN conjunct2, THEN conjunct2, THEN conjunct2, THEN mp, OF e]
    by blast
  from a b c d e f show ?thesis by blast
qed

section \<open>The handshake and the lookup\<close>

lemma remote_projection_not_write: "\<not> endswith GDS_REMOTE_PROJECTION_PROC_NAME ''.write''"
  by (simp add: endswith_def GDS_REMOTE_PROJECTION_PROC_NAME_def)

lemma endswith_write_not_projection:
  "endswith endpoint ''.write'' \<Longrightarrow> GDS_REMOTE_PROJECTION_PROC_NAME \<noteq> endpoint"
  using remote_projection_not_write by auto

lemma callers_view_given [simp]:
  "callers_view given (case given of None \<Rightarrow> [] | Some p \<Rightarrow> p) = given"
  by (simp add: callers_view_def split: option.splits)

lemma authenticate_basic_token_trace:
  "trace (snd (authenticate_basic_token env w u p)) = trace w @ [ClientAuthenticate u p]"
  by (simp add: authenticate_basic_token_def log_event_def Let_def split: handshake.splits prod.splits)

lemma authenticate_basic_token_static:
  "auth (self (snd (authenticate_basic_token env w u p))) = auth (self w)
   \<and> encrypted (self (snd (authenticate_basic_token env w u p))) = encrypted (self w)
   \<and> client_location (self (snd (authenticate_basic_token env w u p))) = client_location (self w)"
  by (simp add: authenticate_basic_token_def log_event_def Let_def split: handshake.splits prod.splits)

lemma get_or_request_auth_pair_snd:
  "snd (get_or_request_auth_pair env w)
     = snd (authenticate_basic_token env w (fst (auth (self w))) (snd (auth (self w))))"
  by (simp add: get_or_request_auth_pair_def split: prod.splits option.splits sum.splits)

lemma get_or_request_auth_pair_trace:
  "get_or_request_auth_pair env w = (ap, w1) \<Longrightarrow>
   trace w1 = trace w @ [ClientAuthenticate (fst (auth (self w))) (snd (auth (self w)))]"
  using get_or_request_auth_pair_snd [of env w] authenticate_basic_token_trace [of env w]
  by simp

lemma get_or_request_auth_pair_static:
  "get_or_request_auth_pair env w = (ap, w1) \<Longrightarrow>
   auth (self w1) = auth (self w) \<and> encrypted (self w1) = encrypted (self w)
   \<and> client_location (self w1) = client_location (self w)"
  using get_or_request_auth_pair_snd [of env w] authenticate_basic_token_static [of env w]
  by simp

lemma is_remote_projected_graph_snd:
  "snd (is_remote_projected_graph env w g) = w\<lparr>trace := trace w @ [graph_list_call g]\<rparr>"
  by (simp add: is_remote_projected_graph_def log_event_def Let_def split: sum.splits squeezed.splits)

lemma is_remote_projected_graph_world:
  "is_remote_projected_graph env w g = (r, w1) \<Longrightarrow> w1 = w\<lparr>trace := trace w @ [graph_list_call g]\<rparr>"
  using is_remote_projected_graph_snd [of env w g] by simp

lemma is_remote_projected_graph_scalar:
  "delegate_call_procedure env (trace w) ''gds.graph.list'' (Some [''databaseLocation''])
     (Some ''$graph_name'') [(''graph_name'', g)] = Inr [[v]] \<Longrightarrow>
   is_remote_projected_graph env w g
     = (Inr (Truth (v = PStr ''remote'')), w\<lparr>trace := trace w @ [graph_list_call g]\<rparr>)"
  by (simp add: is_remote_projected_graph_def log_event_def)

text \<open>After a handshake answered with a Bearer header the stored token is that header's credential.\<close>

lemma authenticate_bearer_token:
  "client_authenticate_basic_token env (trace w) u p = Responded headers \<Longrightarrow>
   read_auth_header (dict_get headers ''authorization'') = Inr (''Bearer'', cred) \<Longrightarrow>
   attr_token (auth_pair_middleware (self (snd (authenticate_basic_token env w u p)))) = Some cred"
  using received_headers_token [of headers "''Bearer''" cred env "auth_pair_middleware (self w)"]
  by (auto simp: authenticate_basic_token_def log_event_def split: prod.splits)

lemma get_or_request_auth_pair_bearer:
  "client_authenticate_basic_token env (trace w) (fst (auth (self w))) (snd (auth (self w)))
     = Responded headers \<Longrightarrow>
   read_auth_header (dict_get headers ''authorization'') = Inr (''Bearer'', cred) \<Longrightarrow>
   get_or_request_auth_pair env w = (Inr (t, a), w1) \<Longrightarrow> t = cred"
  using authenticate_bearer_token [of env w "fst (auth (self w))" "snd (auth (self w))" headers cred]
  by (auto simp: get_or_request_auth_pair_def middleware_token_def
        split: prod.splits option.splits sum.splits)

lemma get_or_request_auth_pair_responded:
  "client_authenticate_basic_token env (trace w) (fst (auth (self w))) (snd (auth (self w)))
     = Responded headers \<Longrightarrow>
   read_auth_header (dict_get headers ''authorization'') = Inr (''Bearer'', cred) \<Longrightarrow>
   read_address_header env (dict_get headers ''arrowpluginaddress'') = Inr a \<Longrightarrow>
   get_or_request_auth_pair env w
     = (Inr (cred, a),
        w\<lparr>trace := trace w @ [ClientAuthenticate (fst (auth (self w))) (snd (auth (self w)))],
          self := (self w)\<lparr>auth_pair_middleware :=
                    (auth_pair_middleware (self w))\<lparr>attr_token := Some cred, attr_arrow_address := Some a\<rparr>\<rparr>\<rparr>)"
  by (simp add: get_or_request_auth_pair_def authenticate_basic_token_def received_headers_def
        log_event_def middleware_token_def middleware_endpoint_def)

section \<open>The paths of \<open>call_endpoint\<close>\<close>

lemma call_endpoint_ordinary:
  "GDS_REMOTE_PROJECTION_PROC_NAME \<noteq> endpoint \<Longrightarrow> \<not> endswith endpoint ''.write'' \<Longrightarrow>
   call_endpoint env w ty endpoint ys b given db ce
     = (delegate_call_endpoint env (trace w) ty endpoint ys b
          (case given of None \<Rightarrow> [] | Some p \<Rightarrow> p) db ce,
        given,
        w\<lparr>trace := trace w @ [DelegateCallEndpoint ty endpoint ys b
          (case given of None \<Rightarrow> [] | Some p \<Rightarrow> p) db ce]\<rparr>)"
  by (simp add: call_endpoint_def Let_def forward_def log_event_def)

lemma call_endpoint_projection:
  "get_or_request_auth_pair env w = (ap, w1) \<Longrightarrow>
   call_endpoint env w ty GDS_REMOTE_PROJECTION_PROC_NAME ys b given db ce
     = (case ap of
          Inl e \<Rightarrow> (Inl e, given, w1)
        | Inr (token, addr) \<Rightarrow>
            (delegate_call_endpoint env (trace w1) ty GDS_REMOTE_PROJECTION_PROC_NAME ys b
               (AList.update ''config'' (PDict [(''useEncryption'', PBool (encrypted (self w)))])
                 (AList.update ''host'' (PStr addr)
                   (AList.update ''token'' (PStr token) (case given of None \<Rightarrow> [] | Some p \<Rightarrow> p))))
               db ce,
             callers_view given
               (AList.update ''config'' (PDict [(''useEncryption'', PBool (encrypted (self w)))])
                 (AList.update ''host'' (PStr addr)
                   (AList.update ''token'' (PStr token) (case given of None \<Rightarrow> [] | Some p \<Rightarrow> p)))),
             w1\<lparr>trace := trace w1 @ [DelegateCallEndpoint ty GDS_REMOTE_PROJECTION_PROC_NAME ys b
               (AList.update ''config'' (PDict [(''useEncryption'', PBool (encrypted (self w)))])
                 (AList.update ''host'' (PStr addr)
                   (AList.update ''token'' (PStr token) (case given of None \<Rightarrow> [] | Some p \<Rightarrow> p))))
               db ce]\<rparr>))"
  using get_or_request_auth_pair_static [of env w ap w1]
  by (simp add: call_endpoint_def Let_def forward_def log_event_def split: sum.splits prod.splits)

lemma call_endpoint_write_no_graph_name:
  "endswith endpoint ''.write'' \<Longrightarrow>
   map_of (case given of None \<Rightarrow> [] | Some p \<Rightarrow> p) ''graph_name'' = None \<Longrightarrow>
   call_endpoint env w ty endpoint ys b given db ce = (Inl (KeyError ''graph_name''), given, w)"
  using endswith_write_not_projection [of endpoint]
  by (simp add: call_endpoint_def Let_def dict_getitem_def)

lemma call_endpoint_write_failed_lookup:
  "endswith endpoint ''.write'' \<Longrightarrow> map_of params ''graph_name'' = Some g \<Longrightarrow>
   is_remote_projected_graph env w g = (r, w1) \<Longrightarrow> r \<noteq> Inr (Truth False) \<Longrightarrow> r \<noteq> Inr (Truth True) \<Longrightarrow>
   \<exists>e. call_endpoint env w ty endpoint ys b (Some params) db ce = (Inl e, Some params, w1)"
  using endswith_write_not_projection [of endpoint]
  by (auto simp: call_endpoint_def Let_def dict_getitem_def callers_view_def split: sum.splits truth.splits)

lemma call_endpoint_write_local:
  "endswith endpoint ''.write'' \<Longrightarrow> map_of params ''graph_name'' = Some g \<Longrightarrow>
   is_remote_projected_graph env w g = (Inr (Truth False), w1) \<Longrightarrow>
   call_endpoint env w ty endpoint ys b (Some params) db ce
     = (delegate_call_endpoint env (trace w1) ty endpoint ys b params db ce,
        Some params,
        w1\<lparr>trace := trace w1 @ [DelegateCallEndpoint ty endpoint ys b params db ce]\<rparr>)"
  using endswith_write_not_projection [of endpoint]
  by (simp add: call_endpoint_def Let_def dict_getitem_def callers_view_def forward_def log_event_def)

lemma call_endpoint_write_remote:
  "endswith endpoint ''.write'' \<Longrightarrow> map_of params ''graph_name'' = Some g \<Longrightarrow>
   is_remote_projected_graph env w g = (Inr (Truth True), w1) \<Longrightarrow>
   get_or_request_auth_pair env w1 = (ap, w2) \<Longrightarrow>
   call_endpoint env w ty endpoint ys b (Some params) db ce
     = (case ap of
          Inl e \<Rightarrow> (Inl e, Some params, w2)
        | Inr (token, addr) \<Rightarrow>
            (case unpack2 (split_on CHR '':'' addr) of
               Inl e \<Rightarrow> (Inl e, Some params, w2)
             | Inr (host, port_string) \<Rightarrow>
                 (case py_int port_string of
                    Inl e \<Rightarrow> (Inl e, Some params, w2)
                  | Inr port \<Rightarrow>
                      (case map_of params ''config'' of
                         None \<Rightarrow> (Inl (KeyError ''config''), Some params, w2)
                       | Some (PDict config) \<Rightarrow>
                           (delegate_call_endpoint env (trace w2) ty endpoint ys b
                              (AList.update ''config''
                                 (PDict (AList.update ''arrowConnectionInfo''
                                    (arrow_connection_info host port token (encrypted (self w))) config))
                                 params) db ce,
                            Some (AList.update ''config''
                                 (PDict (AList.update ''arrowConnectionInfo''
                                    (arrow_connection_info host port token (encrypted (self w))) config))
                                 params),
                            w2\<lparr>trace := trace w2 @ [DelegateCallEndpoint ty endpoint ys b
                              (AList.update ''config''
                                 (PDict (AList.update ''arrowConnectionInfo''
                                    (arrow_connection_info host port token (encrypted (self w))) config))
                                 params) db ce]\<rparr>)
                       | Some _ \<Rightarrow> (Inl TypeError, Some params, w2)))))"
proof -
  assume a: "endswith endpoint ''.write''" "map_of params ''graph_name'' = Some g"
    "is_remote_projected_graph env w g = (Inr (Truth True), w1)"
    "get_or_request_auth_pair env w1 = (ap, w2)"
  from a(3) have w1: "w1 = w\<lparr>trace := trace w @ [graph_list_call g]\<rparr>"
    by (rule is_remote_projected_graph_world)
  from get_or_request_auth_pair_static [OF a(4)] w1 have enc: "encrypted (self w2) = encrypted (self w)"
    by simp
  from a enc endswith_write_not_projection [OF a(1)] show ?thesis
    by (simp add: call_endpoint_def Let_def dict_getitem_def callers_view_def forward_def log_event_def
          split: sum.splits prod.splits option.splits pyval.splits)
qed

lemma scenario_handshake:
  "get_or_request_auth_pair scenario_env scenario_world = (Inr (''T'', ''h2:5''), authenticated_world)"
  by (simp add: get_or_request_auth_pair_def authenticate_basic_token_def received_headers_def
        read_auth_header_def read_address_header_def split_once_def dict_get_def log_event_def
        middleware_token_def middleware_endpoint_def
        scenario_env_def scenario_world_def scenario_runner_def authenticated_world_def)

section \<open>Ordinary calls\<close>

text \<open>
  C4: a call that is neither the remote projection procedure nor a \<open>.write\<close> endpoint, and
  a \<open>.write\<close> call whose lookup answered with a location other than \<open>remote\<close>, hands the
  delegate the arguments it was given, the parameter map with no key added (the empty
  map when the caller passed \<open>None\<close>), and returns what the delegate returns; the
  caller's dictionary is unchanged.
\<close>

theorem ordinary_call_forwards_unchanged:
  "(GDS_REMOTE_PROJECTION_PROC_NAME \<noteq> endpoint \<and> \<not> endswith endpoint ''.write'' \<longrightarrow>
      call_endpoint env w ty endpoint ys b given db ce
        = (delegate_call_endpoint env (trace w) ty endpoint ys b
             (case given of None \<Rightarrow> [] | Some p \<Rightarrow> p) db ce,
           given,
           w\<lparr>trace := trace w @ [DelegateCallEndpoint ty endpoint ys b
             (case given of None \<Rightarrow> [] | Some p \<Rightarrow> p) db ce]\<rparr>))
   \<and> (\<forall>params g w1.
        endswith endpoint ''.write'' \<and> given = Some params \<and> map_of params ''graph_name'' = Some g
        \<and> is_remote_projected_graph env w g = (Inr (Truth False), w1) \<longrightarrow>
        call_endpoint env w ty endpoint ys b given db ce
          = (delegate_call_endpoint env (trace w1) ty endpoint ys b params db ce,
             given,
             w1\<lparr>trace := trace w1 @ [DelegateCallEndpoint ty endpoint ys b params db ce]\<rparr>))"
  using call_endpoint_ordinary [of endpoint env w ty ys b given db ce]
    call_endpoint_write_local [of endpoint _ _ env w _ ty ys b db ce]
  by blast

theorem ordinary_call_forwards_unchanged_witness:
  "GDS_REMOTE_PROJECTION_PROC_NAME \<noteq> ''gds.pageRank.stream''
   \<and> \<not> endswith ''gds.pageRank.stream'' ''.write''
   \<and> call_endpoint scenario_env scenario_world () ''gds.pageRank.stream'' None None
        (Some [(''graph_name'', PStr ''g'')]) None True
      = (Inr [[PStr ''done'']], Some [(''graph_name'', PStr ''g'')],
         scenario_world\<lparr>trace := [DelegateCallEndpoint () ''gds.pageRank.stream'' None None
            [(''graph_name'', PStr ''g'')] None True]\<rparr>)
   \<and> endswith ''gds.pageRank.write'' ''.write''
   \<and> is_remote_projected_graph
        (scenario_env\<lparr>delegate_call_procedure := (\<lambda>h ep ys b ps. Inr [[PStr ''local'']])\<rparr>)
        scenario_world (PStr ''g'')
      = (Inr (Truth False), scenario_world\<lparr>trace := [graph_list_call (PStr ''g'')]\<rparr>)
   \<and> call_endpoint
        (scenario_env\<lparr>delegate_call_procedure := (\<lambda>h ep ys b ps. Inr [[PStr ''local'']])\<rparr>)
        scenario_world () ''gds.pageRank.write'' None None
        (Some [(''graph_name'', PStr ''g''), (''config'', PDict [])]) None True
      = (Inr [[PStr ''done'']], Some [(''graph_name'', PStr ''g''), (''config'', PDict [])],
         scenario_world\<lparr>trace := [graph_list_call (PStr ''g''),
            DelegateCallEndpoint () ''gds.pageRank.write'' None None
              [(''graph_name'', PStr ''g''), (''config'', PDict [])] None True]\<rparr>)"
proof -
  let ?local = "scenario_env\<lparr>delegate_call_procedure := (\<lambda>h ep ys b ps. Inr [[PStr ''local'']])\<rparr>"
  let ?w1 = "scenario_world\<lparr>trace := [graph_list_call (PStr ''g'')]\<rparr>"
  let ?ps = "[(''graph_name'', PStr ''g''), (''config'', PDict [])]"
  have n: "GDS_REMOTE_PROJECTION_PROC_NAME \<noteq> ''gds.pageRank.stream''"
    "\<not> endswith ''gds.pageRank.stream'' ''.write''"
    by (simp_all add: GDS_REMOTE_PROJECTION_PROC_NAME_def endswith_def)
  have e: "endswith ''gds.pageRank.write'' ''.write''"
    by (simp add: endswith_def)
  have l: "is_remote_projected_graph ?local scenario_world (PStr ''g'') = (Inr (Truth False), ?w1)"
    by (simp add: is_remote_projected_graph_def log_event_def scenario_env_def scenario_world_def)
  have g: "map_of ?ps ''graph_name'' = Some (PStr ''g'')" by simp
  have a: "call_endpoint scenario_env scenario_world () ''gds.pageRank.stream'' None None
        (Some [(''graph_name'', PStr ''g'')]) None True
      = (Inr [[PStr ''done'']], Some [(''graph_name'', PStr ''g'')],
         scenario_world\<lparr>trace := [DelegateCallEndpoint () ''gds.pageRank.stream'' None None
            [(''graph_name'', PStr ''g'')] None True]\<rparr>)"
    using ordinary_call_forwards_unchanged [THEN conjunct1, rule_format, OF conjI, OF n,
        of scenario_env scenario_world "()" None None "Some [(''graph_name'', PStr ''g'')]" None True]
    by (simp add: scenario_env_def scenario_world_def)
  have b: "call_endpoint ?local scenario_world () ''gds.pageRank.write'' None None (Some ?ps) None True
      = (Inr [[PStr ''done'']], Some ?ps,
         scenario_world\<lparr>trace := [graph_list_call (PStr ''g''),
            DelegateCallEndpoint () ''gds.pageRank.write'' None None ?ps None True]\<rparr>)"
    using ordinary_call_forwards_unchanged [THEN conjunct2, rule_format,
        of "''gds.pageRank.write''" "Some ?ps" ?ps "PStr ''g''" ?local scenario_world ?w1
           "()" None None None True] e l g
    by (simp add: scenario_env_def scenario_world_def)
  from n e l a b show ?thesis by simp
qed

section \<open>The remote projection procedure\<close>

text \<open>
  C6: for the endpoint \<open>gds.graph.project.remoteDb\<close>, in whatever state the runner is, the
  first thing the call does is a handshake. If the handshake raises, so does the call and
  nothing is forwarded. Otherwise the parameter map gets \<open>token\<close> (the token read from
  the middleware), \<open>host\<close> (the intercepted address) and \<open>config\<close> set to
  \<open>{useEncryption: encrypted}\<close>, its other keys are kept, and it is that map the delegate
  receives, after the handshake. When the handshake answers with a Bearer header and an
  address header, the token and address are the ones of these headers.
\<close>

theorem projection_handshake_then_inject:
  "get_or_request_auth_pair env w = (ap, w1) \<Longrightarrow>
   trace w1 = trace w @ [ClientAuthenticate (fst (auth (self w))) (snd (auth (self w)))]
   \<and> (\<forall>e. ap = Inl e \<longrightarrow>
        call_endpoint env w ty GDS_REMOTE_PROJECTION_PROC_NAME ys b given db ce = (Inl e, given, w1))
   \<and> (\<forall>token addr. ap = Inr (token, addr) \<longrightarrow>
        (let injected =
               AList.update ''config'' (PDict [(''useEncryption'', PBool (encrypted (self w)))])
                 (AList.update ''host'' (PStr addr)
                   (AList.update ''token'' (PStr token) (case given of None \<Rightarrow> [] | Some p \<Rightarrow> p)))
         in call_endpoint env w ty GDS_REMOTE_PROJECTION_PROC_NAME ys b given db ce
              = (delegate_call_endpoint env (trace w1) ty GDS_REMOTE_PROJECTION_PROC_NAME ys b
                   injected db ce,
                 callers_view given injected,
                 w1\<lparr>trace := trace w1 @
                   [DelegateCallEndpoint ty GDS_REMOTE_PROJECTION_PROC_NAME ys b injected db ce]\<rparr>)
            \<and> map_of injected ''token'' = Some (PStr token)
            \<and> map_of injected ''host'' = Some (PStr addr)
            \<and> map_of injected ''config'' = Some (PDict [(''useEncryption'', PBool (encrypted (self w)))])
            \<and> (\<forall>k. k \<noteq> ''token'' \<and> k \<noteq> ''host'' \<and> k \<noteq> ''config'' \<longrightarrow>
                  map_of injected k = map_of (case given of None \<Rightarrow> [] | Some p \<Rightarrow> p) k)))
   \<and> (\<forall>headers cred a.
        client_authenticate_basic_token env (trace w) (fst (auth (self w))) (snd (auth (self w)))
          = Responded headers
        \<and> read_auth_header (dict_get headers ''authorization'') = Inr (''Bearer'', cred)
        \<and> read_address_header env (dict_get headers ''arrowpluginaddress'') = Inr a \<longrightarrow>
        ap = Inr (cred, a))"
proof -
  assume g: "get_or_request_auth_pair env w = (ap, w1)"
  note path = call_endpoint_projection [OF g, of ty ys b given db ce]
  have t: "trace w1 = trace w @ [ClientAuthenticate (fst (auth (self w))) (snd (auth (self w)))]"
    using g by (rule get_or_request_auth_pair_trace)
  have failed: "call_endpoint env w ty GDS_REMOTE_PROJECTION_PROC_NAME ys b given db ce = (Inl e, given, w1)"
    if "ap = Inl e" for e
    using path that by simp
  have injected: "let injected =
               AList.update ''config'' (PDict [(''useEncryption'', PBool (encrypted (self w)))])
                 (AList.update ''host'' (PStr addr)
                   (AList.update ''token'' (PStr token) (case given of None \<Rightarrow> [] | Some p \<Rightarrow> p)))
         in call_endpoint env w ty GDS_REMOTE_PROJECTION_PROC_NAME ys b given db ce
              = (delegate_call_endpoint env (trace w1) ty GDS_REMOTE_PROJECTION_PROC_NAME ys b
                   injected db ce,
                 callers_view given injected,
                 w1\<lparr>trace := trace w1 @
                   [DelegateCallEndpoint ty GDS_REMOTE_PROJECTION_PROC_NAME ys b injected db ce]\<rparr>)
            \<and> map_of injected ''token'' = Some (PStr token)
            \<and> map_of injected ''host'' = Some (PStr addr)
            \<and> map_of injected ''config'' = Some (PDict [(''useEncryption'', PBool (encrypted (self w)))])
            \<and> (\<forall>k. k \<noteq> ''token'' \<and> k \<noteq> ''host'' \<and> k \<noteq> ''config'' \<longrightarrow>
                  map_of injected k = map_of (case given of None \<Rightarrow> [] | Some p \<Rightarrow> p) k)"
    if "ap = Inr (token, addr)" for token addr
    using path that by (simp add: Let_def update_conv')
  have bearer: "ap = Inr (cred, a)"
    if "client_authenticate_basic_token env (trace w) (fst (auth (self w))) (snd (auth (self w)))
          = Responded headers
        \<and> read_auth_header (dict_get headers ''authorization'') = Inr (''Bearer'', cred)
        \<and> read_address_header env (dict_get headers ''arrowpluginaddress'') = Inr a"
    for headers cred a
    using get_or_request_auth_pair_responded [of env w headers cred a] that g by simp
  from t failed injected bearer show ?thesis by blast
qed

theorem projection_handshake_then_inject_witness:
  "client_authenticate_basic_token scenario_env (trace scenario_world) ''neo4j'' ''secret''
     = Responded [(''authorization'', PList [PStr ''Bearer T'']), (''arrowpluginaddress'', PStr ''h2:5'')]
   \<and> read_auth_header (PList [PStr ''Bearer T'']) = Inr (''Bearer'', ''T'')
   \<and> read_address_header scenario_env (PStr ''h2:5'') = Inr ''h2:5''
   \<and> get_or_request_auth_pair scenario_env scenario_world = (Inr (''T'', ''h2:5''), authenticated_world)
   \<and> trace authenticated_world = trace scenario_world @ [ClientAuthenticate ''neo4j'' ''secret'']
   \<and> call_endpoint scenario_env scenario_world () GDS_REMOTE_PROJECTION_PROC_NAME None None
        (Some [(''graph_name'', PStr ''g'')]) None True
      = (Inr [[PStr ''done'']],
         Some [(''graph_name'', PStr ''g''), (''token'', PStr ''T''), (''host'', PStr ''h2:5''),
               (''config'', PDict [(''useEncryption'', PBool True)])],
         authenticated_world\<lparr>trace := [ClientAuthenticate ''neo4j'' ''secret'',
           DelegateCallEndpoint () GDS_REMOTE_PROJECTION_PROC_NAME None None
             [(''graph_name'', PStr ''g''), (''token'', PStr ''T''), (''host'', PStr ''h2:5''),
              (''config'', PDict [(''useEncryption'', PBool True)])] None True]\<rparr>)
   \<and> get_or_request_auth_pair
        (scenario_env\<lparr>client_authenticate_basic_token := (\<lambda>h u p. Rejected (External ''denied''))\<rparr>)
        scenario_world
      = (Inl (External ''denied''), scenario_world\<lparr>trace := [ClientAuthenticate ''neo4j'' ''secret'']\<rparr>)
   \<and> call_endpoint
        (scenario_env\<lparr>client_authenticate_basic_token := (\<lambda>h u p. Rejected (External ''denied''))\<rparr>)
        scenario_world () GDS_REMOTE_PROJECTION_PROC_NAME None None
        (Some [(''graph_name'', PStr ''g'')]) None True
      = (Inl (External ''denied''), Some [(''graph_name'', PStr ''g'')],
         scenario_world\<lparr>trace := [ClientAuthenticate ''neo4j'' ''secret'']\<rparr>)"
proof -
  let ?deny = "scenario_env\<lparr>client_authenticate_basic_token := (\<lambda>h u p. Rejected (External ''denied''))\<rparr>"
  let ?wd = "scenario_world\<lparr>trace := [ClientAuthenticate ''neo4j'' ''secret'']\<rparr>"
  let ?given = "Some [(''graph_name'', PStr ''g'')]"
  have d: "get_or_request_auth_pair ?deny scenario_world = (Inl (External ''denied''), ?wd)"
    by (simp add: get_or_request_auth_pair_def authenticate_basic_token_def log_event_def
          scenario_env_def scenario_world_def scenario_runner_def)
  note ok = projection_handshake_then_inject [OF scenario_handshake, of "()" None None ?given None True]
  note no = projection_handshake_then_inject [OF d, of "()" None None ?given None True]
  have t: "trace authenticated_world = trace scenario_world @ [ClientAuthenticate ''neo4j'' ''secret'']"
    using ok [THEN conjunct1] by (simp add: scenario_world_def scenario_runner_def)
  have c: "call_endpoint scenario_env scenario_world () GDS_REMOTE_PROJECTION_PROC_NAME None None
        ?given None True
      = (Inr [[PStr ''done'']],
         Some [(''graph_name'', PStr ''g''), (''token'', PStr ''T''), (''host'', PStr ''h2:5''),
               (''config'', PDict [(''useEncryption'', PBool True)])],
         authenticated_world\<lparr>trace := [ClientAuthenticate ''neo4j'' ''secret'',
           DelegateCallEndpoint () GDS_REMOTE_PROJECTION_PROC_NAME None None
             [(''graph_name'', PStr ''g''), (''token'', PStr ''T''), (''host'', PStr ''h2:5''),
              (''config'', PDict [(''useEncryption'', PBool True)])] None True]\<rparr>)"
    using ok [THEN conjunct2, THEN conjunct2, THEN conjunct1, rule_format, of "''T''" "''h2:5''"]
    by (simp add: Let_def callers_view_def scenario_env_def scenario_world_def scenario_runner_def
          authenticated_world_def)
  have f: "call_endpoint ?deny scenario_world () GDS_REMOTE_PROJECTION_PROC_NAME None None ?given None True
      = (Inl (External ''denied''), ?given, ?wd)"
    using no [THEN conjunct2, THEN conjunct1, rule_format, of "External ''denied''"] by simp
  have h: "client_authenticate_basic_token scenario_env (trace scenario_world) ''neo4j'' ''secret''
     = Responded [(''authorization'', PList [PStr ''Bearer T'']), (''arrowpluginaddress'', PStr ''h2:5'')]"
    "read_auth_header (PList [PStr ''Bearer T'']) = Inr (''Bearer'', ''T'')"
    "read_address_header scenario_env (PStr ''h2:5'') = Inr ''h2:5''"
    by (simp_all add: scenario_env_def read_auth_header_def read_address_header_def split_once_def)
  from h scenario_handshake d t c f show ?thesis by simp
qed

section \<open>Writing back on a remote graph\<close>

lemma scenario_lookup:
  "is_remote_projected_graph scenario_env scenario_world (PStr ''g'') = (Inr (Truth True), looked_up_world)"
  by (simp add: is_remote_projected_graph_def log_event_def scenario_env_def scenario_world_def
        looked_up_world_def)

lemma scenario_write_handshake:
  "get_or_request_auth_pair scenario_env looked_up_world = (Inr (''T'', ''h2:5''), remote_write_world)"
  by (simp add: get_or_request_auth_pair_def authenticate_basic_token_def received_headers_def
        read_auth_header_def read_address_header_def split_once_def dict_get_def log_event_def
        middleware_token_def middleware_endpoint_def looked_up_world_def remote_write_world_def
        scenario_env_def scenario_world_def scenario_runner_def)

lemma py_int_5: "py_int ''5'' = Inr 5"
  by code_simp

text \<open>
  C7: for a \<open>.write\<close> endpoint on a graph whose lookup answered \<open>remote\<close>, the lookup is
  followed by a handshake. When the handshake yields a token and an address of the form
  \<open>host:port\<close> and the parameter map has a \<open>config\<close> dictionary, \<open>arrowConnectionInfo\<close>
  with hostname, port, bearerToken and useEncryption is added to that dictionary, every
  other entry of \<open>config\<close> and of the parameter map is kept, and the result is forwarded.
  When the parameter map has no \<open>config\<close>, the call raises, nothing is forwarded and no
  key is added; the exception is \<open>KeyError\<close> on \<open>config\<close> (the spec's ContractViolation)
  whenever the handshake and the address split succeeded.
\<close>

theorem remote_write_extends_config:
  "endswith endpoint ''.write'' \<Longrightarrow> map_of params ''graph_name'' = Some g \<Longrightarrow>
   is_remote_projected_graph env w g = (Inr (Truth True), w1) \<Longrightarrow>
   get_or_request_auth_pair env w1 = (ap, w2) \<Longrightarrow>
   trace w2 = trace w @ [graph_list_call g,
                         ClientAuthenticate (fst (auth (self w))) (snd (auth (self w)))]
   \<and> (\<forall>token addr host port_string port config.
        ap = Inr (token, addr) \<and> addr = host @ '':'' @ port_string
        \<and> CHR '':'' \<notin> set host \<and> CHR '':'' \<notin> set port_string
        \<and> py_int port_string = Inr port \<and> map_of params ''config'' = Some (PDict config) \<longrightarrow>
        (let extended = AList.update ''arrowConnectionInfo''
                          (arrow_connection_info host port token (encrypted (self w))) config;
             injected = AList.update ''config'' (PDict extended) params
         in call_endpoint env w ty endpoint ys b (Some params) db ce
              = (delegate_call_endpoint env (trace w2) ty endpoint ys b injected db ce,
                 Some injected,
                 w2\<lparr>trace := trace w2 @ [DelegateCallEndpoint ty endpoint ys b injected db ce]\<rparr>)
            \<and> map_of injected ''config'' = Some (PDict extended)
            \<and> map_of extended ''arrowConnectionInfo''
                = Some (PDict [(''hostname'', PStr host), (''port'', PInt port),
                               (''bearerToken'', PStr token),
                               (''useEncryption'', PBool (encrypted (self w)))])
            \<and> (\<forall>k. k \<noteq> ''arrowConnectionInfo'' \<longrightarrow> map_of extended k = map_of config k)
            \<and> (\<forall>k. k \<noteq> ''config'' \<longrightarrow> map_of injected k = map_of params k)))
   \<and> (map_of params ''config'' = None \<longrightarrow>
        (\<exists>e. call_endpoint env w ty endpoint ys b (Some params) db ce = (Inl e, Some params, w2))
        \<and> (\<forall>token addr host port_string port.
              ap = Inr (token, addr) \<and> addr = host @ '':'' @ port_string
              \<and> CHR '':'' \<notin> set host \<and> CHR '':'' \<notin> set port_string
              \<and> py_int port_string = Inr port \<longrightarrow>
              call_endpoint env w ty endpoint ys b (Some params) db ce
                = (Inl (KeyError ''config''), Some params, w2)))"
proof -
  assume a: "endswith endpoint ''.write''" "map_of params ''graph_name'' = Some g"
    "is_remote_projected_graph env w g = (Inr (Truth True), w1)"
    "get_or_request_auth_pair env w1 = (ap, w2)"
  note path = call_endpoint_write_remote [OF a, of ty ys b db ce]
  have w1: "w1 = w\<lparr>trace := trace w @ [graph_list_call g]\<rparr>"
    using a(3) by (rule is_remote_projected_graph_world)
  have t: "trace w2 = trace w @ [graph_list_call g,
                         ClientAuthenticate (fst (auth (self w))) (snd (auth (self w)))]"
    using get_or_request_auth_pair_trace [OF a(4)] w1 by simp
  have ok: "let extended = AList.update ''arrowConnectionInfo''
                          (arrow_connection_info host port token (encrypted (self w))) config;
             injected = AList.update ''config'' (PDict extended) params
         in call_endpoint env w ty endpoint ys b (Some params) db ce
              = (delegate_call_endpoint env (trace w2) ty endpoint ys b injected db ce,
                 Some injected,
                 w2\<lparr>trace := trace w2 @ [DelegateCallEndpoint ty endpoint ys b injected db ce]\<rparr>)
            \<and> map_of injected ''config'' = Some (PDict extended)
            \<and> map_of extended ''arrowConnectionInfo''
                = Some (PDict [(''hostname'', PStr host), (''port'', PInt port),
                               (''bearerToken'', PStr token),
                               (''useEncryption'', PBool (encrypted (self w)))])
            \<and> (\<forall>k. k \<noteq> ''arrowConnectionInfo'' \<longrightarrow> map_of extended k = map_of config k)
            \<and> (\<forall>k. k \<noteq> ''config'' \<longrightarrow> map_of injected k = map_of params k)"
    if h: "ap = Inr (token, addr) \<and> addr = host @ '':'' @ port_string
        \<and> CHR '':'' \<notin> set host \<and> CHR '':'' \<notin> set port_string
        \<and> py_int port_string = Inr port \<and> map_of params ''config'' = Some (PDict config)"
    for token addr host port_string port config
  proof -
    from h have s: "split_on CHR '':'' addr = [host, port_string]" by (simp add: split_on_two)
    from path h s show ?thesis
      by (simp add: Let_def update_conv' arrow_connection_info_def)
  qed
  have fails: "\<exists>e. call_endpoint env w ty endpoint ys b (Some params) db ce = (Inl e, Some params, w2)"
    if "map_of params ''config'' = None"
    using path that by (auto split: sum.splits prod.splits)
  have keyerror: "call_endpoint env w ty endpoint ys b (Some params) db ce
                = (Inl (KeyError ''config''), Some params, w2)"
    if "map_of params ''config'' = None"
      and h: "ap = Inr (token, addr) \<and> addr = host @ '':'' @ port_string
              \<and> CHR '':'' \<notin> set host \<and> CHR '':'' \<notin> set port_string
              \<and> py_int port_string = Inr port"
    for token addr host port_string port
  proof -
    from h have s: "split_on CHR '':'' addr = [host, port_string]" by (simp add: split_on_two)
    from path h s that(1) show ?thesis by simp
  qed
  from t ok fails keyerror show ?thesis by blast
qed

theorem remote_write_extends_config_witness:
  "endswith ''gds.pageRank.write'' ''.write''
   \<and> is_remote_projected_graph scenario_env scenario_world (PStr ''g'') = (Inr (Truth True), looked_up_world)
   \<and> get_or_request_auth_pair scenario_env looked_up_world = (Inr (''T'', ''h2:5''), remote_write_world)
   \<and> py_int ''5'' = Inr 5
   \<and> call_endpoint scenario_env scenario_world () ''gds.pageRank.write'' None None
        (Some [(''graph_name'', PStr ''g''), (''config'', PDict [(''foo'', PInt 1)])]) None True
      = (Inr [[PStr ''done'']],
         Some [(''graph_name'', PStr ''g''),
               (''config'', PDict [(''foo'', PInt 1),
                  (''arrowConnectionInfo'',
                   PDict [(''hostname'', PStr ''h2''), (''port'', PInt 5),
                          (''bearerToken'', PStr ''T''), (''useEncryption'', PBool True)])])],
         remote_write_world\<lparr>trace := [graph_list_call (PStr ''g''),
           ClientAuthenticate ''neo4j'' ''secret'',
           DelegateCallEndpoint () ''gds.pageRank.write'' None None
             [(''graph_name'', PStr ''g''),
              (''config'', PDict [(''foo'', PInt 1),
                 (''arrowConnectionInfo'',
                  PDict [(''hostname'', PStr ''h2''), (''port'', PInt 5),
                         (''bearerToken'', PStr ''T''), (''useEncryption'', PBool True)])])]
             None True]\<rparr>)
   \<and> map_of [(''graph_name'', PStr ''g'')] ''config'' = None
   \<and> call_endpoint scenario_env scenario_world () ''gds.pageRank.write'' None None
        (Some [(''graph_name'', PStr ''g'')]) None True
      = (Inl (KeyError ''config''), Some [(''graph_name'', PStr ''g'')], remote_write_world)"
proof -
  let ?full = "[(''graph_name'', PStr ''g''), (''config'', PDict [(''foo'', PInt 1)])]"
  let ?bare = "[(''graph_name'', PStr ''g'')]"
  have e: "endswith ''gds.pageRank.write'' ''.write''" by (simp add: endswith_def)
  have g1: "map_of ?full ''graph_name'' = Some (PStr ''g'')" by simp
  have g2: "map_of ?bare ''graph_name'' = Some (PStr ''g'')" by simp
  note t1 = remote_write_extends_config [OF e g1 scenario_lookup scenario_write_handshake,
      of "()" None None None True]
  note t2 = remote_write_extends_config [OF e g2 scenario_lookup scenario_write_handshake,
      of "()" None None None True]
  have a: "call_endpoint scenario_env scenario_world () ''gds.pageRank.write'' None None
        (Some ?full) None True
      = (Inr [[PStr ''done'']],
         Some [(''graph_name'', PStr ''g''),
               (''config'', PDict [(''foo'', PInt 1),
                  (''arrowConnectionInfo'',
                   PDict [(''hostname'', PStr ''h2''), (''port'', PInt 5),
                          (''bearerToken'', PStr ''T''), (''useEncryption'', PBool True)])])],
         remote_write_world\<lparr>trace := [graph_list_call (PStr ''g''),
           ClientAuthenticate ''neo4j'' ''secret'',
           DelegateCallEndpoint () ''gds.pageRank.write'' None None
             [(''graph_name'', PStr ''g''),
              (''config'', PDict [(''foo'', PInt 1),
                 (''arrowConnectionInfo'',
                  PDict [(''hostname'', PStr ''h2''), (''port'', PInt 5),
                         (''bearerToken'', PStr ''T''), (''useEncryption'', PBool True)])])]
             None True]\<rparr>)"
    using t1 [THEN conjunct2, THEN conjunct1, rule_format,
        of "''T''" "''h2:5''" "''h2''" "''5''" 5 "[(''foo'', PInt 1)]"] py_int_5
    by (simp add: Let_def arrow_connection_info_def scenario_env_def scenario_world_def
          scenario_runner_def remote_write_world_def)
  have b: "call_endpoint scenario_env scenario_world () ''gds.pageRank.write'' None None
        (Some ?bare) None True
      = (Inl (KeyError ''config''), Some ?bare, remote_write_world)"
    using t2 [THEN conjunct2, THEN conjunct2, rule_format, THEN conjunct2, rule_format,
        of "''T''" "''h2:5''" "''h2''" "''5''" 5] py_int_5
    by simp
  from e scenario_lookup scenario_write_handshake py_int_5 a b show ?thesis by simp
qed

section \<open>What the caller sees of its own dictionary\<close>

text \<open>
  C10: when a privileged call injects credentials, the dictionary the caller passed is
  the one that is changed: after the call it holds the injected keys, whatever the
  delegate answered, and it is the dictionary the delegate received. On the remote
  projection path the \<open>config\<close> entry is \<open>{useEncryption: encrypted}\<close> alone, whatever
  \<open>config\<close> the caller had put there; on the write path the caller's \<open>config\<close> gains
  \<open>arrowConnectionInfo\<close>.
\<close>

theorem injection_visible_to_caller:
  "(\<forall>token addr w1.
      get_or_request_auth_pair env w = (Inr (token, addr), w1) \<longrightarrow>
      (let injected =
             AList.update ''config'' (PDict [(''useEncryption'', PBool (encrypted (self w)))])
               (AList.update ''host'' (PStr addr) (AList.update ''token'' (PStr token) params))
       in fst (snd (call_endpoint env w ty GDS_REMOTE_PROJECTION_PROC_NAME ys b (Some params) db ce))
            = Some injected
          \<and> last (trace (snd (snd (call_endpoint env w ty GDS_REMOTE_PROJECTION_PROC_NAME ys b
                                      (Some params) db ce))))
              = DelegateCallEndpoint ty GDS_REMOTE_PROJECTION_PROC_NAME ys b injected db ce
          \<and> map_of injected ''config''
              = Some (PDict [(''useEncryption'', PBool (encrypted (self w)))])))
   \<and> (\<forall>g w1 token addr w2 host port_string port config.
        endswith endpoint ''.write'' \<and> map_of params ''graph_name'' = Some g
        \<and> is_remote_projected_graph env w g = (Inr (Truth True), w1)
        \<and> get_or_request_auth_pair env w1 = (Inr (token, addr), w2)
        \<and> addr = host @ '':'' @ port_string
        \<and> CHR '':'' \<notin> set host \<and> CHR '':'' \<notin> set port_string
        \<and> py_int port_string = Inr port \<and> map_of params ''config'' = Some (PDict config) \<longrightarrow>
        (let injected =
               AList.update ''config''
                 (PDict (AList.update ''arrowConnectionInfo''
                    (arrow_connection_info host port token (encrypted (self w))) config))
                 params
         in fst (snd (call_endpoint env w ty endpoint ys b (Some params) db ce)) = Some injected
            \<and> last (trace (snd (snd (call_endpoint env w ty endpoint ys b (Some params) db ce))))
                = DelegateCallEndpoint ty endpoint ys b injected db ce))"
proof -
  have projection: "let injected =
             AList.update ''config'' (PDict [(''useEncryption'', PBool (encrypted (self w)))])
               (AList.update ''host'' (PStr addr) (AList.update ''token'' (PStr token) params))
       in fst (snd (call_endpoint env w ty GDS_REMOTE_PROJECTION_PROC_NAME ys b (Some params) db ce))
            = Some injected
          \<and> last (trace (snd (snd (call_endpoint env w ty GDS_REMOTE_PROJECTION_PROC_NAME ys b
                                      (Some params) db ce))))
              = DelegateCallEndpoint ty GDS_REMOTE_PROJECTION_PROC_NAME ys b injected db ce
          \<and> map_of injected ''config''
              = Some (PDict [(''useEncryption'', PBool (encrypted (self w)))])"
    if "get_or_request_auth_pair env w = (Inr (token, addr), w1)" for token addr w1
    using call_endpoint_projection [OF that, of ty ys b "Some params" db ce]
    by (simp add: Let_def callers_view_def update_conv')
  have writing: "let injected =
               AList.update ''config''
                 (PDict (AList.update ''arrowConnectionInfo''
                    (arrow_connection_info host port token (encrypted (self w))) config))
                 params
         in fst (snd (call_endpoint env w ty endpoint ys b (Some params) db ce)) = Some injected
            \<and> last (trace (snd (snd (call_endpoint env w ty endpoint ys b (Some params) db ce))))
                = DelegateCallEndpoint ty endpoint ys b injected db ce"
    if h: "endswith endpoint ''.write'' \<and> map_of params ''graph_name'' = Some g
        \<and> is_remote_projected_graph env w g = (Inr (Truth True), w1)
        \<and> get_or_request_auth_pair env w1 = (Inr (token, addr), w2)
        \<and> addr = host @ '':'' @ port_string
        \<and> CHR '':'' \<notin> set host \<and> CHR '':'' \<notin> set port_string
        \<and> py_int port_string = Inr port \<and> map_of params ''config'' = Some (PDict config)"
    for g w1 token addr w2 host port_string port config
  proof -
    from h have s: "split_on CHR '':'' addr = [host, port_string]" by (simp add: split_on_two)
    from h have p: "endswith endpoint ''.write''" "map_of params ''graph_name'' = Some g"
      "is_remote_projected_graph env w g = (Inr (Truth True), w1)"
      "get_or_request_auth_pair env w1 = (Inr (token, addr), w2)"
      by simp_all
    from call_endpoint_write_remote [OF p, of ty ys b db ce] s h show ?thesis
      by (simp add: Let_def)
  qed
  from projection writing show ?thesis by blast
qed

theorem injection_visible_to_caller_witness:
  "get_or_request_auth_pair (scenario_env\<lparr>delegate_call_endpoint :=
        (\<lambda>h ty ep ys b ps db ce. Inl (External ''down''))\<rparr>) scenario_world
     = (Inr (''T'', ''h2:5''), authenticated_world)
   \<and> call_endpoint (scenario_env\<lparr>delegate_call_endpoint :=
        (\<lambda>h ty ep ys b ps db ce. Inl (External ''down''))\<rparr>) scenario_world ()
        GDS_REMOTE_PROJECTION_PROC_NAME None None
        (Some [(''graph_name'', PStr ''g''), (''config'', PDict [(''foo'', PInt 1)])]) None True
      = (Inl (External ''down''),
         Some [(''graph_name'', PStr ''g''), (''config'', PDict [(''useEncryption'', PBool True)]),
               (''token'', PStr ''T''), (''host'', PStr ''h2:5'')],
         authenticated_world\<lparr>trace := [ClientAuthenticate ''neo4j'' ''secret'',
           DelegateCallEndpoint () GDS_REMOTE_PROJECTION_PROC_NAME None None
             [(''graph_name'', PStr ''g''), (''config'', PDict [(''useEncryption'', PBool True)]),
              (''token'', PStr ''T''), (''host'', PStr ''h2:5'')] None True]\<rparr>)
   \<and> endswith ''gds.pageRank.write'' ''.write''
   \<and> is_remote_projected_graph scenario_env scenario_world (PStr ''g'') = (Inr (Truth True), looked_up_world)
   \<and> get_or_request_auth_pair scenario_env looked_up_world = (Inr (''T'', ''h2:5''), remote_write_world)
   \<and> py_int ''5'' = Inr 5
   \<and> fst (snd (call_endpoint scenario_env scenario_world () ''gds.pageRank.write'' None None
        (Some [(''graph_name'', PStr ''g''), (''config'', PDict [(''foo'', PInt 1)])]) None True))
      = Some [(''graph_name'', PStr ''g''),
              (''config'', PDict [(''foo'', PInt 1),
                 (''arrowConnectionInfo'',
                  PDict [(''hostname'', PStr ''h2''), (''port'', PInt 5),
                         (''bearerToken'', PStr ''T''), (''useEncryption'', PBool True)])])]"
proof -
  let ?down = "scenario_env\<lparr>delegate_call_endpoint := (\<lambda>h ty ep ys b ps db ce. Inl (External ''down''))\<rparr>"
  let ?ps = "[(''graph_name'', PStr ''g''), (''config'', PDict [(''foo'', PInt 1)])]"
  have hs: "get_or_request_auth_pair ?down scenario_world = (Inr (''T'', ''h2:5''), authenticated_world)"
    by (simp add: get_or_request_auth_pair_def authenticate_basic_token_def received_headers_def
        read_auth_header_def read_address_header_def split_once_def dict_get_def log_event_def
        middleware_token_def middleware_endpoint_def
        scenario_env_def scenario_world_def scenario_runner_def authenticated_world_def)
  have e: "endswith ''gds.pageRank.write'' ''.write''" by (simp add: endswith_def)
  note t1 = injection_visible_to_caller [THEN conjunct1, rule_format, OF hs,
      of ?ps "()" None None None True]
  note t2 = injection_visible_to_caller [THEN conjunct2, rule_format,
      of "''gds.pageRank.write''" ?ps "PStr ''g''" scenario_env scenario_world looked_up_world
        "''T''" "''h2:5''" remote_write_world "''h2''" "''5''" 5 "[(''foo'', PInt 1)]"
        "()" None None None True]
  have v1: "fst (snd (call_endpoint ?down scenario_world () GDS_REMOTE_PROJECTION_PROC_NAME None None
        (Some ?ps) None True))
      = Some [(''graph_name'', PStr ''g''), (''config'', PDict [(''useEncryption'', PBool True)]),
               (''token'', PStr ''T''), (''host'', PStr ''h2:5'')]"
    using t1 by (simp add: Let_def scenario_world_def scenario_runner_def)
  have a: "call_endpoint ?down scenario_world () GDS_REMOTE_PROJECTION_PROC_NAME None None
        (Some ?ps) None True
      = (Inl (External ''down''),
         Some [(''graph_name'', PStr ''g''), (''config'', PDict [(''useEncryption'', PBool True)]),
               (''token'', PStr ''T''), (''host'', PStr ''h2:5'')],
         authenticated_world\<lparr>trace := [ClientAuthenticate ''neo4j'' ''secret'',
           DelegateCallEndpoint () GDS_REMOTE_PROJECTION_PROC_NAME None None
             [(''graph_name'', PStr ''g''), (''config'', PDict [(''useEncryption'', PBool True)]),
              (''token'', PStr ''T''), (''host'', PStr ''h2:5'')] None True]\<rparr>)"
    using call_endpoint_projection [OF hs, of "()" None None "Some ?ps" None True] v1
    by (simp add: callers_view_def scenario_env_def scenario_world_def scenario_runner_def
          authenticated_world_def)
  have b: "fst (snd (call_endpoint scenario_env scenario_world () ''gds.pageRank.write'' None None
        (Some ?ps) None True))
      = Some [(''graph_name'', PStr ''g''),
              (''config'', PDict [(''foo'', PInt 1),
                 (''arrowConnectionInfo'',
                  PDict [(''hostname'', PStr ''h2''), (''port'', PInt 5),
                         (''bearerToken'', PStr ''T''), (''useEncryption'', PBool True)])])]"
    using t2 e scenario_lookup scenario_write_handshake py_int_5
    by (simp add: Let_def arrow_connection_info_def scenario_world_def scenario_runner_def)
  from hs a e scenario_lookup scenario_write_handshake py_int_5 b show ?thesis by simp
qed

section \<open>One privileged call\<close>

lemma is_forward_not_handshake: "is_forward ev \<Longrightarrow> \<not> is_handshake ev"
  by (cases ev) simp_all

lemma handshakes_append [simp]: "handshakes (xs @ ys) = handshakes xs + handshakes ys"
  by (simp add: handshakes_def)

lemma handshakes_simps [simp]:
  "handshakes [] = 0"
  "handshakes (ClientAuthenticate u p # t) = Suc (handshakes t)"
  "handshakes (DelegateCallEndpoint ty ep ys b ps db ce # t) = handshakes t"
  "handshakes (DelegateCallProcedure ep ys b ps # t) = handshakes t"
  by (simp_all add: handshakes_def)

lemma handshakes_graph_list_call [simp]: "handshakes (graph_list_call g # t) = handshakes t"
  by (simp add: graph_list_call_def)

lemma privileged_projection:
  assumes ep: "rq_endpoint q = GDS_REMOTE_PROJECTION_PROC_NAME"
  shows "prefix (trace w @ lookup_events q @ [ClientAuthenticate (fst (auth (self w))) (snd (auth (self w)))])
           (trace (snd (snd (dispatch env w q))))
     \<and> handshakes (trace (snd (snd (dispatch env w q)))) = handshakes (trace w) + 1
     \<and> (\<forall>headers cred.
          client_authenticate_basic_token env (trace w @ lookup_events q)
            (fst (auth (self w))) (snd (auth (self w))) = Responded headers
          \<and> read_auth_header (dict_get headers ''authorization'') = Inr (''Bearer'', cred)
          \<and> is_forward (last (trace (snd (snd (dispatch env w q))))) \<longrightarrow>
          carried_token (last (trace (snd (snd (dispatch env w q))))) = Some (PStr cred))"
proof -
  obtain ap w1 where g: "get_or_request_auth_pair env w = (ap, w1)"
    by (cases "get_or_request_auth_pair env w") auto
  note t = get_or_request_auth_pair_trace [OF g]
  note path = call_endpoint_projection [OF g, of "rq_type q" "rq_yields q" "rq_body q" "rq_params q"
      "rq_database q" "rq_custom_error q"]
  have l: "lookup_events q = []" using ep by (simp add: lookup_events_def)
  show ?thesis
  proof (cases ap)
    case (Inl e)
    with path ep have "snd (snd (dispatch env w q)) = w1" by (simp add: dispatch_def)
    with t l show ?thesis by simp
  next
    case (Inr pair)
    obtain token addr where pair: "pair = (token, addr)" by (cases pair) auto
    let ?P = "AList.update ''config'' (PDict [(''useEncryption'', PBool (encrypted (self w)))])
                 (AList.update ''host'' (PStr addr)
                   (AList.update ''token'' (PStr token) (case rq_params q of None \<Rightarrow> [] | Some p \<Rightarrow> p)))"
    let ?ev = "DelegateCallEndpoint (rq_type q) GDS_REMOTE_PROJECTION_PROC_NAME (rq_yields q) (rq_body q)
                 ?P (rq_database q) (rq_custom_error q)"
    from path ep Inr pair have tr: "trace (snd (snd (dispatch env w q))) = trace w1 @ [?ev]"
      by (simp add: dispatch_def)
    have c: "carried_token ?ev = Some (PStr token)" by (simp add: update_conv')
    have fresh: "token = cred"
      if "client_authenticate_basic_token env (trace w) (fst (auth (self w))) (snd (auth (self w)))
            = Responded headers"
        and "read_auth_header (dict_get headers ''authorization'') = Inr (''Bearer'', cred)"
      for headers cred
      using get_or_request_auth_pair_bearer [OF that] g Inr pair by simp
    from tr t l c fresh show ?thesis by (auto simp: prefix_def)
  qed
qed

lemma privileged_write:
  assumes ep: "endswith (rq_endpoint q) ''.write''"
    and ps: "rq_params q = Some params" and gn: "map_of params ''graph_name'' = Some g"
    and remote: "fst (is_remote_projected_graph env w g) = Inr (Truth True)"
  shows "prefix (trace w @ lookup_events q @ [ClientAuthenticate (fst (auth (self w))) (snd (auth (self w)))])
           (trace (snd (snd (dispatch env w q))))
     \<and> handshakes (trace (snd (snd (dispatch env w q)))) = handshakes (trace w) + 1
     \<and> (\<forall>headers cred.
          client_authenticate_basic_token env (trace w @ lookup_events q)
            (fst (auth (self w))) (snd (auth (self w))) = Responded headers
          \<and> read_auth_header (dict_get headers ''authorization'') = Inr (''Bearer'', cred)
          \<and> is_forward (last (trace (snd (snd (dispatch env w q))))) \<longrightarrow>
          carried_token (last (trace (snd (snd (dispatch env w q))))) = Some (PStr cred))"
proof -
  let ?w1 = "w\<lparr>trace := trace w @ [graph_list_call g]\<rparr>"
  have r: "is_remote_projected_graph env w g = (Inr (Truth True), ?w1)"
    using remote is_remote_projected_graph_snd [of env w g]
    by (cases "is_remote_projected_graph env w g") simp
  obtain ap w2 where g2: "get_or_request_auth_pair env ?w1 = (ap, w2)"
    by (cases "get_or_request_auth_pair env ?w1") auto
  have t: "trace w2 = trace w @ [graph_list_call g,
             ClientAuthenticate (fst (auth (self w))) (snd (auth (self w)))]"
    using get_or_request_auth_pair_trace [OF g2] by simp
  have ne: "rq_endpoint q \<noteq> GDS_REMOTE_PROJECTION_PROC_NAME"
    using endswith_write_not_projection [OF ep] by simp
  have l: "lookup_events q = [graph_list_call g]"
    using ne ps gn by (simp add: lookup_events_def)
  note path = call_endpoint_write_remote [OF ep gn r g2, of "rq_type q" "rq_yields q" "rq_body q"
      "rq_database q" "rq_custom_error q"]
  have d: "dispatch env w q = call_endpoint env w (rq_type q) (rq_endpoint q) (rq_yields q) (rq_body q)
             (Some params) (rq_database q) (rq_custom_error q)"
    using ps by (simp add: dispatch_def)
  have shape: "snd (snd (dispatch env w q)) = w2
     \<or> (\<exists>token addr host port config.
           ap = Inr (token, addr)
           \<and> snd (snd (dispatch env w q)) = w2\<lparr>trace := trace w2 @
               [DelegateCallEndpoint (rq_type q) (rq_endpoint q) (rq_yields q) (rq_body q)
                  (AList.update ''config''
                     (PDict (AList.update ''arrowConnectionInfo''
                        (arrow_connection_info host port token (encrypted (self w))) config))
                     params) (rq_database q) (rq_custom_error q)]\<rparr>)"
    unfolding d path by (auto split: sum.splits prod.splits option.splits pyval.splits)
  have fresh: "token = cred"
    if "client_authenticate_basic_token env (trace w @ [graph_list_call g])
          (fst (auth (self w))) (snd (auth (self w))) = Responded headers"
      and "read_auth_header (dict_get headers ''authorization'') = Inr (''Bearer'', cred)"
      and "ap = Inr (token, addr)"
    for headers cred token addr
    using get_or_request_auth_pair_bearer [of env ?w1 headers cred token addr w2] that g2 by simp
  from shape show ?thesis
  proof
    assume "snd (snd (dispatch env w q)) = w2"
    with t l show ?thesis by simp
  next
    assume "\<exists>token addr host port config.
           ap = Inr (token, addr)
           \<and> snd (snd (dispatch env w q)) = w2\<lparr>trace := trace w2 @
               [DelegateCallEndpoint (rq_type q) (rq_endpoint q) (rq_yields q) (rq_body q)
                  (AList.update ''config''
                     (PDict (AList.update ''arrowConnectionInfo''
                        (arrow_connection_info host port token (encrypted (self w))) config))
                     params) (rq_database q) (rq_custom_error q)]\<rparr>"
    then obtain token addr host port config where
      ap: "ap = Inr (token, addr)" and
      s: "snd (snd (dispatch env w q)) = w2\<lparr>trace := trace w2 @
               [DelegateCallEndpoint (rq_type q) (rq_endpoint q) (rq_yields q) (rq_body q)
                  (AList.update ''config''
                     (PDict (AList.update ''arrowConnectionInfo''
                        (arrow_connection_info host port token (encrypted (self w))) config))
                     params) (rq_database q) (rq_custom_error q)]\<rparr>"
      by blast
    have c: "carried_token (DelegateCallEndpoint (rq_type q) (rq_endpoint q) (rq_yields q) (rq_body q)
                  (AList.update ''config''
                     (PDict (AList.update ''arrowConnectionInfo''
                        (arrow_connection_info host port token (encrypted (self w))) config))
                     params) (rq_database q) (rq_custom_error q)) = Some (PStr token)"
      using ne by (simp add: update_conv' arrow_connection_info_def)
    from s t l c fresh [OF _ _ ap] show ?thesis by (auto simp: prefix_def)
  qed
qed

lemma privileged_call:
  assumes "privileged env w q"
  shows "prefix (trace w @ lookup_events q @ [ClientAuthenticate (fst (auth (self w))) (snd (auth (self w)))])
           (trace (snd (snd (dispatch env w q))))
     \<and> handshakes (trace (snd (snd (dispatch env w q)))) = handshakes (trace w) + 1
     \<and> (\<forall>headers cred.
          client_authenticate_basic_token env (trace w @ lookup_events q)
            (fst (auth (self w))) (snd (auth (self w))) = Responded headers
          \<and> read_auth_header (dict_get headers ''authorization'') = Inr (''Bearer'', cred)
          \<and> is_forward (last (trace (snd (snd (dispatch env w q))))) \<longrightarrow>
          carried_token (last (trace (snd (snd (dispatch env w q))))) = Some (PStr cred))"
proof (cases "rq_endpoint q = GDS_REMOTE_PROJECTION_PROC_NAME")
  case True
  then show ?thesis by (rule privileged_projection)
next
  case False
  with assms obtain params g where
    "endswith (rq_endpoint q) ''.write''" "rq_params q = Some params"
    "map_of params ''graph_name'' = Some g"
    "fst (is_remote_projected_graph env w g) = Inr (Truth True)"
    by (auto simp: privileged_def dict_getitem_def split: option.splits sum.splits)
  then show ?thesis by (rule privileged_write)
qed

lemma call_endpoint_auth:
  "auth (self (snd (snd (call_endpoint env w ty endpoint ys b given db ce)))) = auth (self w)"
proof (cases "GDS_REMOTE_PROJECTION_PROC_NAME = endpoint")
  case True
  obtain ap w1 where g: "get_or_request_auth_pair env w = (ap, w1)"
    by (cases "get_or_request_auth_pair env w") auto
  from get_or_request_auth_pair_static [OF g] have "auth (self w1) = auth (self w)" by simp
  with call_endpoint_projection [OF g, of ty ys b given db ce] True show ?thesis
    by (auto split: sum.splits)
next
  case False
  note not_projection = False
  show ?thesis
  proof (cases "endswith endpoint ''.write''")
    case False
    with call_endpoint_ordinary [OF not_projection, of env w ty ys b given db ce] show ?thesis
      by simp
  next
    case True
    note w = True
    show ?thesis
    proof (cases "map_of (case given of None \<Rightarrow> [] | Some p \<Rightarrow> p) ''graph_name''")
      case None
      with call_endpoint_write_no_graph_name [OF w, of given env w ty ys b db ce] show ?thesis
        by simp
    next
      case (Some g)
      then obtain params where given: "given = Some params" and gn: "map_of params ''graph_name'' = Some g"
        by (cases given) auto
      obtain r w1 where l: "is_remote_projected_graph env w g = (r, w1)"
        by (cases "is_remote_projected_graph env w g") auto
      from is_remote_projected_graph_world [OF l] have a1: "auth (self w1) = auth (self w)" by simp
      consider "r = Inr (Truth False)" | "r = Inr (Truth True)"
        | "r \<noteq> Inr (Truth False)" "r \<noteq> Inr (Truth True)" by blast
      then show ?thesis
      proof cases
        case 1
        with call_endpoint_write_local [OF w gn, of env w w1 ty ys b db ce] l a1 given show ?thesis
          by simp
      next
        case 2
        obtain ap w2 where g2: "get_or_request_auth_pair env w1 = (ap, w2)"
          by (cases "get_or_request_auth_pair env w1") auto
        from get_or_request_auth_pair_static [OF g2] a1 have a2: "auth (self w2) = auth (self w)"
          by simp
        from l 2 have l2: "is_remote_projected_graph env w g = (Inr (Truth True), w1)" by simp
        show ?thesis
          unfolding given call_endpoint_write_remote [OF w gn l2 g2]
          using a2 by (simp split: sum.splits prod.splits option.splits pyval.splits)
      next
        case 3
        from call_endpoint_write_failed_lookup [OF w gn l 3, of ty ys b db ce] a1 given show ?thesis
          by auto
      qed
    qed
  qed
qed

lemma dispatch_auth: "auth (self (snd (snd (dispatch env w q)))) = auth (self w)"
  by (simp add: dispatch_def call_endpoint_auth)

lemma run_calls_auth: "auth (self (run_calls env w qs)) = auth (self w)"
  by (induction qs arbitrary: w) (simp_all add: dispatch_auth)

lemma run_calls_append: "run_calls env w (xs @ ys) = run_calls env (run_calls env w xs) ys"
  by (induction xs arbitrary: w) simp_all

lemma run_calls_take_Suc:
  "n < length qs \<Longrightarrow>
   run_calls env w (take (Suc n) qs) = snd (snd (dispatch env (run_calls env w (take n qs)) (qs ! n)))"
  by (simp add: take_Suc_conv_app_nth run_calls_append)

lemma all_privileged_handshakes:
  "all_privileged env w qs \<Longrightarrow>
   handshakes (trace (run_calls env w qs)) = handshakes (trace w) + length qs"
proof (induction qs arbitrary: w)
  case Nil
  then show ?case by simp
next
  case (Cons q qs)
  from Cons.prems have p: "privileged env w q"
    and rest: "all_privileged env (snd (snd (dispatch env w q))) qs"
    by simp_all
  from privileged_call [OF p]
  have "handshakes (trace (snd (snd (dispatch env w q)))) = handshakes (trace w) + 1"
    by blast
  with Cons.IH [OF rest] show ?case by simp
qed

lemma lookups_append [simp]: "lookups (xs @ ys) = lookups xs + lookups ys"
  by (simp add: lookups_def)

lemma lookups_simps [simp]:
  "lookups [] = 0"
  "lookups (ClientAuthenticate u p # t) = lookups t"
  "lookups (DelegateCallEndpoint ty ep ys b ps db ce # t) = lookups t"
  "lookups (graph_list_call g # t) = Suc (lookups t)"
  by (simp_all add: lookups_def graph_list_call_def)

section \<open>The lookup of a write call\<close>

text \<open>
  C5 as stated fails: a \<open>.write\<close> call whose parameter map has no \<open>graph_name\<close> raises
  \<open>KeyError\<close> while the lookup's argument is evaluated, so no lookup is made.
\<close>

theorem write_without_graph_name_raises_before_lookup:
  "call_endpoint scenario_env scenario_world () ''gds.pageRank.write'' None None
     (Some [(''config'', PDict [])]) None True
     = (Inl (KeyError ''graph_name''), Some [(''config'', PDict [])], scenario_world)
   \<and> lookups (trace (snd (snd (call_endpoint scenario_env scenario_world () ''gds.pageRank.write''
        None None (Some [(''config'', PDict [])]) None True)))) = 0"
proof -
  have e: "endswith ''gds.pageRank.write'' ''.write''" by (simp add: endswith_def)
  have "call_endpoint scenario_env scenario_world () ''gds.pageRank.write'' None None
     (Some [(''config'', PDict [])]) None True
     = (Inl (KeyError ''graph_name''), Some [(''config'', PDict [])], scenario_world)"
    using call_endpoint_write_no_graph_name [OF e, of "Some [(''config'', PDict [])]"] by simp
  then show ?thesis by (simp add: scenario_world_def)
qed

lemma call_endpoint_write_trace:
  assumes w: "endswith endpoint ''.write''" and gn: "map_of params ''graph_name'' = Some g"
  shows "\<exists>rest. trace (snd (snd (call_endpoint env w ty endpoint ys b (Some params) db ce)))
                  = trace w @ graph_list_call g # rest
               \<and> lookups rest = 0"
proof -
  obtain r w1 where l: "is_remote_projected_graph env w g = (r, w1)"
    by (cases "is_remote_projected_graph env w g") auto
  from is_remote_projected_graph_world [OF l] have t1: "trace w1 = trace w @ [graph_list_call g]"
    by simp
  consider "r = Inr (Truth False)" | "r = Inr (Truth True)"
    | "r \<noteq> Inr (Truth False)" "r \<noteq> Inr (Truth True)" by blast
  then show ?thesis
  proof cases
    case 1
    with call_endpoint_write_local [OF w gn, of env w w1 ty ys b db ce] l t1 show ?thesis
      by simp
  next
    case 2
    obtain ap w2 where g2: "get_or_request_auth_pair env w1 = (ap, w2)"
      by (cases "get_or_request_auth_pair env w1") auto
    from get_or_request_auth_pair_trace [OF g2] t1
    have t2: "trace w2 = trace w @ graph_list_call g #
                [ClientAuthenticate (fst (auth (self w1))) (snd (auth (self w1)))]"
      by simp
    from l 2 have l2: "is_remote_projected_graph env w g = (Inr (Truth True), w1)" by simp
    show ?thesis
      unfolding call_endpoint_write_remote [OF w gn l2 g2]
      using t2 by (simp split: sum.splits prod.splits option.splits pyval.splits)
  next
    case 3
    from call_endpoint_write_failed_lookup [OF w gn l 3, of ty ys b db ce] t1 show ?thesis
      by auto
  qed
qed

text \<open>
  C5, amended: a call whose endpoint ends in \<open>.write\<close> and whose parameter map has a
  \<open>graph_name\<close> first asks the delegate's \<open>call_procedure\<close> for \<open>gds.graph.list\<close> with that
  graph name, yielding \<open>databaseLocation\<close>, and makes no other procedure call: one lookup
  per call, made on the delegate directly, with no handshake before it. When the lookup
  returns a single location other than \<open>remote\<close>, there is no handshake and the delegate
  receives the parameters unchanged.
\<close>

theorem write_call_looks_up_once:
  "endswith endpoint ''.write'' \<Longrightarrow> map_of params ''graph_name'' = Some g \<Longrightarrow>
   prefix (trace w @ [graph_list_call g])
     (trace (snd (snd (call_endpoint env w ty endpoint ys b (Some params) db ce))))
   \<and> lookups (trace (snd (snd (call_endpoint env w ty endpoint ys b (Some params) db ce))))
       = lookups (trace w) + 1
   \<and> (\<forall>v. delegate_call_procedure env (trace w) ''gds.graph.list'' (Some [''databaseLocation''])
              (Some ''$graph_name'') [(''graph_name'', g)] = Inr [[v]]
           \<and> v \<noteq> PStr ''remote'' \<longrightarrow>
           call_endpoint env w ty endpoint ys b (Some params) db ce
             = (delegate_call_endpoint env (trace w @ [graph_list_call g]) ty endpoint ys b params db ce,
                Some params,
                w\<lparr>trace := trace w @ [graph_list_call g,
                     DelegateCallEndpoint ty endpoint ys b params db ce]\<rparr>)
           \<and> handshakes (trace (snd (snd (call_endpoint env w ty endpoint ys b (Some params) db ce))))
               = handshakes (trace w))"
proof -
  assume w: "endswith endpoint ''.write''" and gn: "map_of params ''graph_name'' = Some g"
  from call_endpoint_write_trace [OF w gn, of env w ty ys b db ce] obtain rest where
    rest: "trace (snd (snd (call_endpoint env w ty endpoint ys b (Some params) db ce)))
             = trace w @ graph_list_call g # rest" "lookups rest = 0"
    by blast
  have once: "prefix (trace w @ [graph_list_call g])
       (trace (snd (snd (call_endpoint env w ty endpoint ys b (Some params) db ce))))
     \<and> lookups (trace (snd (snd (call_endpoint env w ty endpoint ys b (Some params) db ce))))
         = lookups (trace w) + 1"
    using rest by (simp add: prefix_def)
  have local: "call_endpoint env w ty endpoint ys b (Some params) db ce
             = (delegate_call_endpoint env (trace w @ [graph_list_call g]) ty endpoint ys b params db ce,
                Some params,
                w\<lparr>trace := trace w @ [graph_list_call g,
                     DelegateCallEndpoint ty endpoint ys b params db ce]\<rparr>)
           \<and> handshakes (trace (snd (snd (call_endpoint env w ty endpoint ys b (Some params) db ce))))
               = handshakes (trace w)"
    if "delegate_call_procedure env (trace w) ''gds.graph.list'' (Some [''databaseLocation''])
              (Some ''$graph_name'') [(''graph_name'', g)] = Inr [[v]] \<and> v \<noteq> PStr ''remote''" for v
  proof -
    from that is_remote_projected_graph_scalar [of env w g v]
    have "is_remote_projected_graph env w g
            = (Inr (Truth False), w\<lparr>trace := trace w @ [graph_list_call g]\<rparr>)"
      by simp
    from call_endpoint_write_local [OF w gn this, of ty ys b db ce] show ?thesis by simp
  qed
  from once local show ?thesis by blast
qed

theorem write_call_looks_up_once_witness:
  "endswith ''gds.pageRank.write'' ''.write''
   \<and> map_of [(''graph_name'', PStr ''g''), (''config'', PDict [])] ''graph_name'' = Some (PStr ''g'')
   \<and> delegate_call_procedure
        (scenario_env\<lparr>delegate_call_procedure := (\<lambda>h ep ys b ps. Inr [[PStr ''local'']])\<rparr>)
        (trace scenario_world) ''gds.graph.list'' (Some [''databaseLocation''])
        (Some ''$graph_name'') [(''graph_name'', PStr ''g'')] = Inr [[PStr ''local'']]
   \<and> PStr ''local'' \<noteq> PStr ''remote''
   \<and> call_endpoint
        (scenario_env\<lparr>delegate_call_procedure := (\<lambda>h ep ys b ps. Inr [[PStr ''local'']])\<rparr>)
        scenario_world () ''gds.pageRank.write'' None None
        (Some [(''graph_name'', PStr ''g''), (''config'', PDict [])]) None True
      = (Inr [[PStr ''done'']], Some [(''graph_name'', PStr ''g''), (''config'', PDict [])],
         scenario_world\<lparr>trace := [graph_list_call (PStr ''g''),
            DelegateCallEndpoint () ''gds.pageRank.write'' None None
              [(''graph_name'', PStr ''g''), (''config'', PDict [])] None True]\<rparr>)
   \<and> lookups (trace (snd (snd (call_endpoint scenario_env scenario_world () ''gds.pageRank.write''
        None None (Some [(''graph_name'', PStr ''g''), (''config'', PDict [])]) None True)))) = 1"
proof -
  let ?local = "scenario_env\<lparr>delegate_call_procedure := (\<lambda>h ep ys b ps. Inr [[PStr ''local'']])\<rparr>"
  let ?ps = "[(''graph_name'', PStr ''g''), (''config'', PDict [])]"
  have e: "endswith ''gds.pageRank.write'' ''.write''" by (simp add: endswith_def)
  have g: "map_of ?ps ''graph_name'' = Some (PStr ''g'')" by simp
  have d: "delegate_call_procedure ?local (trace scenario_world) ''gds.graph.list''
        (Some [''databaseLocation'']) (Some ''$graph_name'') [(''graph_name'', PStr ''g'')]
      = Inr [[PStr ''local'']]"
    by simp
  have n: "PStr ''local'' \<noteq> PStr ''remote''" by simp
  note t1 = write_call_looks_up_once [OF e g, of scenario_world ?local "()" None None None True]
  note t2 = write_call_looks_up_once [OF e g, of scenario_world scenario_env "()" None None None True]
  have a: "call_endpoint ?local scenario_world () ''gds.pageRank.write'' None None (Some ?ps) None True
      = (Inr [[PStr ''done'']], Some ?ps,
         scenario_world\<lparr>trace := [graph_list_call (PStr ''g''),
            DelegateCallEndpoint () ''gds.pageRank.write'' None None ?ps None True]\<rparr>)"
    using t1 [THEN conjunct2, THEN conjunct2, rule_format, of "PStr ''local''", THEN conjunct1] d n
    by (simp add: scenario_env_def scenario_world_def)
  have b: "lookups (trace (snd (snd (call_endpoint scenario_env scenario_world () ''gds.pageRank.write''
        None None (Some ?ps) None True)))) = 1"
    using t2 [THEN conjunct2, THEN conjunct1] by (simp add: scenario_world_def)
  from e g d n a b show ?thesis by simp
qed

section \<open>Sequences of privileged calls\<close>

text \<open>
  C3 as stated fails: the middleware stores a token only when the scheme is \<open>Bearer\<close>.
  With a second handshake answered by a Basic header, the second call does its own
  handshake and then injects \<open>T1\<close>, the token of the first call.
\<close>

theorem stale_token_injected:
  "trace (run_calls stale_env scenario_world [projection_request, projection_request])
     = [ClientAuthenticate ''neo4j'' ''secret'',
        DelegateCallEndpoint () GDS_REMOTE_PROJECTION_PROC_NAME None None
          [(''graph_name'', PStr ''g''), (''token'', PStr ''T1''), (''host'', PStr ''h2:5''),
           (''config'', PDict [(''useEncryption'', PBool True)])] None True,
        ClientAuthenticate ''neo4j'' ''secret'',
        DelegateCallEndpoint () GDS_REMOTE_PROJECTION_PROC_NAME None None
          [(''graph_name'', PStr ''g''), (''token'', PStr ''T1''), (''host'', PStr ''h3:7''),
           (''config'', PDict [(''useEncryption'', PBool True)])] None True]
   \<and> client_authenticate_basic_token stale_env
        (trace (run_calls stale_env scenario_world [projection_request])) ''neo4j'' ''secret''
      = Responded [(''authorization'', PStr ''Basic xyz''), (''arrowpluginaddress'', PStr ''h3:7'')]"
  by code_simp

text \<open>
  C3, amended: in a sequence of requests on one runner, every privileged request does one
  handshake of its own, after its lookup if it has one and before anything is forwarded,
  so a run of privileged requests adds as many handshakes as it has requests (two for two
  consecutive ones). When the handshake of request \<open>n\<close> is answered with a Bearer
  authorization header, the token carried by the call forwarded for request \<open>n\<close> is that
  header's credential, whatever token the middleware held before.
\<close>

theorem privileged_calls_handshake_each_time:
  "(all_privileged env w qs \<longrightarrow>
      handshakes (trace (run_calls env w qs)) = handshakes (trace w) + length qs)
   \<and> (\<forall>n. n < length qs \<and> privileged env (run_calls env w (take n qs)) (qs ! n) \<longrightarrow>
        prefix (trace (run_calls env w (take n qs)) @ lookup_events (qs ! n) @
                  [ClientAuthenticate (fst (auth (self w))) (snd (auth (self w)))])
          (trace (run_calls env w (take (Suc n) qs)))
        \<and> handshakes (trace (run_calls env w (take (Suc n) qs)))
            = handshakes (trace (run_calls env w (take n qs))) + 1
        \<and> (\<forall>headers cred.
              client_authenticate_basic_token env
                (trace (run_calls env w (take n qs)) @ lookup_events (qs ! n))
                (fst (auth (self w))) (snd (auth (self w))) = Responded headers
              \<and> read_auth_header (dict_get headers ''authorization'') = Inr (''Bearer'', cred)
              \<and> is_forward (last (trace (run_calls env w (take (Suc n) qs)))) \<longrightarrow>
              carried_token (last (trace (run_calls env w (take (Suc n) qs)))) = Some (PStr cred)))"
proof -
  have each: "prefix (trace (run_calls env w (take n qs)) @ lookup_events (qs ! n) @
                  [ClientAuthenticate (fst (auth (self w))) (snd (auth (self w)))])
          (trace (run_calls env w (take (Suc n) qs)))
        \<and> handshakes (trace (run_calls env w (take (Suc n) qs)))
            = handshakes (trace (run_calls env w (take n qs))) + 1
        \<and> (\<forall>headers cred.
              client_authenticate_basic_token env
                (trace (run_calls env w (take n qs)) @ lookup_events (qs ! n))
                (fst (auth (self w))) (snd (auth (self w))) = Responded headers
              \<and> read_auth_header (dict_get headers ''authorization'') = Inr (''Bearer'', cred)
              \<and> is_forward (last (trace (run_calls env w (take (Suc n) qs)))) \<longrightarrow>
              carried_token (last (trace (run_calls env w (take (Suc n) qs)))) = Some (PStr cred))"
    if h: "n < length qs \<and> privileged env (run_calls env w (take n qs)) (qs ! n)" for n
  proof -
    from h have p: "privileged env (run_calls env w (take n qs)) (qs ! n)" by simp
    from h have s: "run_calls env w (take (Suc n) qs)
                      = snd (snd (dispatch env (run_calls env w (take n qs)) (qs ! n)))"
      by (simp add: run_calls_take_Suc)
    have a: "auth (self (run_calls env w (take n qs))) = auth (self w)"
      by (rule run_calls_auth)
    from privileged_call [OF p] show ?thesis
      unfolding s a .
  qed
  from each all_privileged_handshakes [of env w qs] show ?thesis by blast
qed

lemma scenario_two_calls:
  "all_privileged scenario_env scenario_world [projection_request, write_request]"
  "privileged scenario_env (run_calls scenario_env scenario_world [projection_request]) write_request"
  "trace (run_calls scenario_env scenario_world [projection_request]) @ lookup_events write_request
     = [ClientAuthenticate ''neo4j'' ''secret'',
        DelegateCallEndpoint () GDS_REMOTE_PROJECTION_PROC_NAME None None
          [(''graph_name'', PStr ''g''), (''token'', PStr ''T''), (''host'', PStr ''h2:5''),
           (''config'', PDict [(''useEncryption'', PBool True)])] None True,
        graph_list_call (PStr ''g'')]"
  "is_forward (last (trace (run_calls scenario_env scenario_world [projection_request, write_request])))"
  "auth (self scenario_world) = (''neo4j'', ''secret'')"
  "handshakes (trace scenario_world) = 0"
  by code_simp+

theorem privileged_calls_handshake_each_time_witness:
  "all_privileged scenario_env scenario_world [projection_request, write_request]
   \<and> handshakes (trace (run_calls scenario_env scenario_world [projection_request, write_request])) = 2
   \<and> privileged scenario_env (run_calls scenario_env scenario_world [projection_request]) write_request
   \<and> client_authenticate_basic_token scenario_env
        [ClientAuthenticate ''neo4j'' ''secret'',
         DelegateCallEndpoint () GDS_REMOTE_PROJECTION_PROC_NAME None None
           [(''graph_name'', PStr ''g''), (''token'', PStr ''T''), (''host'', PStr ''h2:5''),
            (''config'', PDict [(''useEncryption'', PBool True)])] None True,
         graph_list_call (PStr ''g'')] ''neo4j'' ''secret''
      = Responded [(''authorization'', PList [PStr ''Bearer T'']), (''arrowpluginaddress'', PStr ''h2:5'')]
   \<and> read_auth_header (PList [PStr ''Bearer T'']) = Inr (''Bearer'', ''T'')
   \<and> is_forward (last (trace (run_calls scenario_env scenario_world [projection_request, write_request])))
   \<and> carried_token (last (trace (run_calls scenario_env scenario_world
        [projection_request, write_request]))) = Some (PStr ''T'')"
proof -
  let ?qs = "[projection_request, write_request]"
  let ?hs = "[(''authorization'', PList [PStr ''Bearer T'']), (''arrowpluginaddress'', PStr ''h2:5'')]"
  note t = privileged_calls_handshake_each_time [of scenario_env scenario_world ?qs]
  have tk: "take 1 ?qs = [projection_request]" "take (Suc 1) ?qs = ?qs" "?qs ! 1 = write_request"
    "(1::nat) < length ?qs"
    by simp_all
  have c: "handshakes (trace (run_calls scenario_env scenario_world ?qs)) = 2"
    using t [THEN conjunct1] scenario_two_calls(1,6) by simp
  have r: "client_authenticate_basic_token scenario_env
        (trace (run_calls scenario_env scenario_world [projection_request]) @ lookup_events write_request)
        ''neo4j'' ''secret'' = Responded ?hs"
    by (simp add: scenario_env_def)
  have a: "read_auth_header (dict_get ?hs ''authorization'') = Inr (''Bearer'', ''T'')"
    by (simp add: read_auth_header_def split_once_def dict_get_def)
  have a': "read_auth_header (PList [PStr ''Bearer T'']) = Inr (''Bearer'', ''T'')"
    by (simp add: read_auth_header_def split_once_def)
  have k: "carried_token (last (trace (run_calls scenario_env scenario_world ?qs))) = Some (PStr ''T'')"
  proof -
    have pre: "1 < length ?qs \<and> privileged scenario_env
                 (run_calls scenario_env scenario_world (take 1 ?qs)) (?qs ! 1)"
      using scenario_two_calls(2) by simp
    note step = t [THEN conjunct2, THEN spec, of 1, THEN mp, OF pre, THEN conjunct2, THEN conjunct2,
        THEN spec, THEN spec, of ?hs "''T''", THEN mp]
    from step r a scenario_two_calls(4,5) show ?thesis by simp
  qed
  have r': "client_authenticate_basic_token scenario_env
        [ClientAuthenticate ''neo4j'' ''secret'',
         DelegateCallEndpoint () GDS_REMOTE_PROJECTION_PROC_NAME None None
           [(''graph_name'', PStr ''g''), (''token'', PStr ''T''), (''host'', PStr ''h2:5''),
            (''config'', PDict [(''useEncryption'', PBool True)])] None True,
         graph_list_call (PStr ''g'')] ''neo4j'' ''secret'' = Responded ?hs"
    by (simp add: scenario_env_def)
  from scenario_two_calls(1,2,4) c r' a' k show ?thesis by simp
qed

end
